theory Spec2Isabelle
  imports Complex_Main "HOL-Library.Sublist"
begin

section \<open>Python strings\<close>

text \<open>
  The server is a Python 3 program; its strings are modelled as \<open>string\<close> (lists of
  \<open>char\<close>) holding ASCII text. The string methods the handlers call are modelled on
  that alphabet: \<open>str.strip\<close>, \<open>str.upper\<close>, \<open>str.split(sep)\<close>,
  \<open>str.replace(old, "")\<close>, \<open>int(str)\<close> and \<open>str(int)\<close>; \<open>str.startswith\<close> is
  \<open>prefix\<close>.
\<close>

definition is_space :: "char \<Rightarrow> bool" where
  \<comment> \<open>\<open>str.isspace\<close> on ASCII: TAB, LF, VT, FF, CR, FS, GS, RS, US and the blank.\<close>
  "is_space c = ((of_char c :: nat) \<in> {9, 10, 11, 12, 13, 28, 29, 30, 31, 32})"

definition strip :: "string \<Rightarrow> string" where
  "strip s = rev (dropWhile is_space (rev (dropWhile is_space s)))"

definition upper_char :: "char \<Rightarrow> char" where
  "upper_char c =
     (case map_of (zip ''abcdefghijklmnopqrstuvwxyz'' ''ABCDEFGHIJKLMNOPQRSTUVWXYZ'') c of
        Some u \<Rightarrow> u
      | None \<Rightarrow> c)"

definition upper :: "string \<Rightarrow> string" where
  "upper s = map upper_char s"

fun split_on :: "char \<Rightarrow> string \<Rightarrow> string list" where
  \<comment> \<open>\<open>s.split(sep)\<close> for a one-character separator: never empty, \<open>"".split(",") == [""]\<close>.\<close>
  "split_on sep [] = [[]]"
| "split_on sep (c # cs) =
     (if c = sep then [] # split_on sep cs
      else (case split_on sep cs of
              [] \<Rightarrow> [[c]]
            | w # ws \<Rightarrow> (c # w) # ws))"

fun replace_del :: "string \<Rightarrow> string \<Rightarrow> string" where
  \<comment> \<open>\<open>s.replace(old, "")\<close>: one left-to-right pass that drops each occurrence of
      \<open>old\<close> it meets and resumes after it; an empty \<open>old\<close> leaves \<open>s\<close> as it is.\<close>
  "replace_del old [] = []"
| "replace_del old (c # cs) =
     (if old \<noteq> [] \<and> prefix old (c # cs)
      then replace_del old (drop (length old) (c # cs))
      else c # replace_del old cs)"

definition is_digit :: "char \<Rightarrow> bool" where
  "is_digit c = (48 \<le> (of_char c :: nat) \<and> (of_char c :: nat) \<le> 57)"

definition digit_val :: "char \<Rightarrow> nat" where
  "digit_val c = of_char c - 48"

definition nat_of_digits :: "string \<Rightarrow> nat" where
  "nat_of_digits ds = foldl (\<lambda>acc c. 10 * acc + digit_val c) 0 ds"

definition py_int :: "string \<Rightarrow> int option" where
  \<comment> \<open>\<open>int(s)\<close> in base 10: surrounding whitespace is ignored, one sign is allowed,
      then at least one digit and nothing else; \<open>None\<close> is \<open>ValueError\<close>. (Digit
      separators \<open>_\<close> are left out: the only caller passes a piece of
      \<open>split('_')\<close>, which holds no underscore. So is the interpreter's limit on the
      number of digits, far above the length of a sheet title.)\<close>
  "py_int s =
     (case strip s of
        [] \<Rightarrow> None
      | c # r \<Rightarrow>
          if c = CHR ''-'' then
            (if r \<noteq> [] \<and> list_all is_digit r then Some (- int (nat_of_digits r)) else None)
          else if c = CHR ''+'' then
            (if r \<noteq> [] \<and> list_all is_digit r then Some (int (nat_of_digits r)) else None)
          else if list_all is_digit (c # r) then Some (int (nat_of_digits (c # r)))
          else None)"

fun str_nat :: "nat \<Rightarrow> string" where
  "str_nat n =
     (if n < 10 then [''0123456789'' ! n]
      else str_nat (n div 10) @ [''0123456789'' ! (n mod 10)])"

definition str_int :: "int \<Rightarrow> string" where
  \<comment> \<open>\<open>str(i)\<close>, as the f-strings format an integer.\<close>
  "str_int i = (if i < 0 then CHR ''-'' # str_nat (nat (- i)) else str_nat (nat i))"

fun join_comma :: "string list \<Rightarrow> string" where
  \<comment> \<open>\<open>",".join(xs)\<close>\<close>
  "join_comma [] = []"
| "join_comma [x] = x"
| "join_comma (x # y # r) = x @ CHR '','' # join_comma (y # r)"

definition lower_char :: "char \<Rightarrow> char" where
  "lower_char c =
     (case map_of (zip ''ABCDEFGHIJKLMNOPQRSTUVWXYZ'' ''abcdefghijklmnopqrstuvwxyz'') c of
        Some l \<Rightarrow> l
      | None \<Rightarrow> c)"

definition lower :: "string \<Rightarrow> string" where
  "lower s = map lower_char s"

section \<open>Payloads\<close>

text \<open>
  A request body decoded by \<open>json.loads\<close>, and every Python value the handlers pass
  around, is a value of \<open>'f json\<close>. The parameter \<open>'f\<close> is the type of Python floats,
  which the handlers only store and compare with zero; a \<open>dict\<close> is an association
  list in insertion order with distinct keys.
\<close>

datatype 'f json =
    JNull
  | JBool bool
  | JInt int
  | JFloat 'f
  | JStr string
  | JList "'f json list"
  | JObj "(string \<times> 'f json) list"

definition dict_get :: "(string \<times> 'f json) list \<Rightarrow> string \<Rightarrow> 'f json option" where
  "dict_get kvs k = map_of kvs k"

fun truthy :: "('f::zero) json \<Rightarrow> bool" where
  \<comment> \<open>Python's truth value of a decoded body.\<close>
  "truthy JNull = False"
| "truthy (JBool b) = b"
| "truthy (JInt n) = (n \<noteq> 0)"
| "truthy (JFloat x) = (x \<noteq> 0)"
| "truthy (JStr s) = (s \<noteq> [])"
| "truthy (JList xs) = (xs \<noteq> [])"
| "truthy (JObj kvs) = (kvs \<noteq> [])"

fun py_iter :: "'f json \<Rightarrow> 'f json list option" where
  \<comment> \<open>What \<open>for x in v\<close> visits; \<open>None\<close> is the \<open>TypeError\<close> of a value that is not
      iterable. A \<open>dict\<close> is iterated over its keys.\<close>
  "py_iter (JList xs) = Some xs"
| "py_iter (JObj kvs) = Some (map (\<lambda>kv. JStr (fst kv)) kvs)"
| "py_iter (JStr s) = Some (map (\<lambda>c. JStr [c]) s)"
| "py_iter JNull = None"
| "py_iter (JBool b) = None"
| "py_iter (JInt n) = None"
| "py_iter (JFloat x) = None"

section \<open>Alert normalizer: \<open>extract_stocks_from_alert\<close>\<close>

definition clean_stock :: "string \<Rightarrow> string" where
  \<comment> \<open>\<open>stock.strip().upper().replace("NSE:", "").replace(".NS", "")\<close>\<close>
  "clean_stock stock = replace_del ''.NS'' (replace_del ''NSE:'' (upper (strip stock)))"

fun clean_loop :: "'f json list \<Rightarrow> string list \<Rightarrow> string list" where
  \<comment> \<open>The \<open>for stock in stocks\<close> loop; the second argument is \<open>cleaned_stocks\<close>.\<close>
  "clean_loop [] cleaned_stocks = cleaned_stocks"
| "clean_loop (JStr stock # rest) cleaned_stocks =
     (let clean = clean_stock stock
      in if clean \<noteq> [] \<and> length clean \<le> 20
         then clean_loop rest (cleaned_stocks @ [clean])
         else clean_loop rest cleaned_stocks)"
| "clean_loop (v # rest) cleaned_stocks = clean_loop rest cleaned_stocks"

definition extract_stocks_from_alert :: "'f json \<Rightarrow> string list" where
  \<comment> \<open>Any exception inside is caught and gives \<open>[]\<close>; the only one that can occur is
      the \<open>TypeError\<close> of looping over a value that is not iterable.\<close>
  "extract_stocks_from_alert alert_data =
     (case alert_data of
        JObj kvs \<Rightarrow>
          (case dict_get kvs ''stocks'' of
             None \<Rightarrow> []
           | Some (JStr s) \<Rightarrow> clean_loop (map (\<lambda>p. JStr (strip p) :: 'f json) (split_on CHR '','' s)) []
           | Some stocks \<Rightarrow>
               (case py_iter stocks of
                  None \<Rightarrow> []
                | Some items \<Rightarrow> clean_loop items []))
      | _ \<Rightarrow> [])"

section \<open>The workbook, as \<open>openpyxl\<close> presents it\<close>

text \<open>
  A workbook is the ordered list of its sheets; a sheet is its title and its rows of cells.
  The file on disk is absent, unreadable (\<open>load_workbook\<close> raises, with the message
  given), or holds a workbook. The library keeps titles distinct without regard to letter
  case: \<open>create_sheet\<close> passes the requested title through \<open>avoid_duplicate_name\<close>,
  which, when some existing title equals it ignoring case, appends the next free counter
  to it.
\<close>

type_synonym 'f sheet = "string \<times> 'f json list list"

datatype 'f file_state = Missing | Unreadable string | Workbook "'f sheet list"

definition sheetnames :: "'f sheet list \<Rightarrow> string list" where
  "sheetnames wb = map fst wb"

fun remove_sheet :: "string \<Rightarrow> 'f sheet list \<Rightarrow> 'f sheet list" where
  \<comment> \<open>\<open>workbook.remove(workbook[name])\<close>: the first sheet of that title is taken out.\<close>
  "remove_sheet name [] = []"
| "remove_sheet name (sh # wb) = (if fst sh = name then wb else sh # remove_sheet name wb)"

definition skip_comma :: "string \<Rightarrow> string" where
  "skip_comma s = (case s of [] \<Rightarrow> [] | c # r \<Rightarrow> if c = CHR '','' then r else c # r)"

function title_counts :: "string \<Rightarrow> string \<Rightarrow> string list" where
  \<comment> \<open>The \<open>count\<close> groups that the pattern \<open>(title)(\d*),?\<close>, matched ignoring case,
      finds in the comma-joined titles, left to right without overlap.\<close>
  "title_counts title s =
     (if title = [] \<or> s = [] then []
      else if lower (take (length title) s) = lower title
      then takeWhile is_digit (drop (length title) s)
             # title_counts title (skip_comma (dropWhile is_digit (drop (length title) s)))
      else title_counts title (tl s))"
  by pat_completeness auto
termination
proof (relation "measure (\<lambda>(title, s). length s)")
  show "wf (measure (\<lambda>(title :: string, s :: string). length s))"
    by simp
next
  fix title s :: string
  assume a: "\<not> (title = [] \<or> s = [])"
  have "length (skip_comma (dropWhile is_digit (drop (length title) s)))
          \<le> length (dropWhile is_digit (drop (length title) s))"
    by (simp add: skip_comma_def split: list.split)
  also have "\<dots> \<le> length (drop (length title) s)"
    by (rule length_dropWhile_le)
  also have "\<dots> < length s"
    using a by simp
  finally show "((title, skip_comma (dropWhile is_digit (drop (length title) s))), (title, s))
          \<in> measure (\<lambda>(title, s). length s)"
    by simp
next
  fix title s :: string
  assume "\<not> (title = [] \<or> s = [])"
  then show "((title, tl s), (title, s)) \<in> measure (\<lambda>(title, s). length s)"
    by (cases s) simp_all
qed

definition py_max :: "int list \<Rightarrow> int" where
  \<comment> \<open>\<open>max(numbers)\<close> of a list that is not empty.\<close>
  "py_max numbers = fold max (tl numbers) (hd numbers)"

definition avoid_duplicate_name :: "string list \<Rightarrow> string \<Rightarrow> string" where
  "avoid_duplicate_name names title =
     (if list_ex (\<lambda>n. lower n = lower title) names then
        (let matches = title_counts title (join_comma names)
         in if matches \<noteq> [] then
              (let counts = map (\<lambda>idx. int (nat_of_digits idx)) (filter (\<lambda>idx. idx \<noteq> []) matches);
                   highest = (if counts \<noteq> [] then py_max counts else 0)
               in title @ str_int (highest + 1))
            else title)
      else title)"

definition create_sheet :: "string \<Rightarrow> 'f json list list \<Rightarrow> 'f sheet list \<Rightarrow> 'f sheet list" where
  \<comment> \<open>\<open>workbook.create_sheet(title)\<close> followed by the \<open>append\<close> calls that fill the new
      sheet: it is placed last.\<close>
  "create_sheet title rows wb = wb @ [(avoid_duplicate_name (sheetnames wb) title, rows)]"

section \<open>Startup scan: \<open>get_next_iteration_number\<close>\<close>

fun numbers_loop :: "string list \<Rightarrow> int list \<Rightarrow> int list" where
  \<comment> \<open>The loop over \<open>iteration_sheets\<close>; \<open>IndexError\<close> and \<open>ValueError\<close> skip the sheet.\<close>
  "numbers_loop [] numbers = numbers"
| "numbers_loop (sheet # rest) numbers =
     (case split_on CHR ''_'' sheet of
        p0 # p1 # ps \<Rightarrow>
          (case py_int p1 of
             Some n \<Rightarrow> numbers_loop rest (numbers @ [n])
           | None \<Rightarrow> numbers_loop rest numbers)
      | _ \<Rightarrow> numbers_loop rest numbers)"

definition get_next_iteration_number :: "'f file_state \<Rightarrow> int" where
  "get_next_iteration_number excel_file =
     (case excel_file of
        Missing \<Rightarrow> 1
      | Unreadable e \<Rightarrow> 1
      | Workbook workbook \<Rightarrow>
          (let iteration_sheets = filter (prefix ''Iteration_'') (sheetnames workbook)
           in if iteration_sheets = [] then 1
              else (let numbers = numbers_loop iteration_sheets []
                    in if numbers \<noteq> [] then py_max numbers + 1 else 1)))"

section \<open>The world outside the process\<close>

text \<open>
  Calls that leave the program (the clock, \<open>float\<close>, the file system through
  \<open>openpyxl\<close>, the Drive client) are answered by an environment: each call either
  returns a value or raises an exception carrying its message.
\<close>

datatype 'a outcome = Raises string | Returns 'a

record 'f env =
  strftime_date :: string  \<comment> \<open>\<open>current_time.strftime("%Y-%m-%d")\<close>\<close>
  strftime_time :: string  \<comment> \<open>\<open>current_time.strftime("%H:%M:%S")\<close>\<close>
  strftime_hm :: string  \<comment> \<open>\<open>current_time.strftime("%H:%M %p")\<close>\<close>
  parse_float :: "string \<Rightarrow> 'f option"  \<comment> \<open>\<open>float(s)\<close>; \<open>None\<close> is \<open>ValueError\<close>\<close>
  float_of_int :: "int \<Rightarrow> 'f"  \<comment> \<open>the float of an integer, as a column of floats stores it\<close>
  save_new_workbook :: "unit outcome"  \<comment> \<open>the \<open>save\<close> of a workbook just created\<close>
  append_rows :: "unit outcome"  \<comment> \<open>appending the header and the rows to the new sheet\<close>
  save_workbook :: "unit outcome"  \<comment> \<open>the \<open>save\<close> after the new sheet is filled\<close>
  folders_list :: "string list outcome"  \<comment> \<open>ids of the folders found by name\<close>
  folders_create :: "string option outcome"  \<comment> \<open>\<open>folder.get('id')\<close> of the created folder\<close>
  files_list :: "string list outcome"  \<comment> \<open>ids of the files found by name\<close>
  media_file_upload :: "unit outcome"  \<comment> \<open>constructing \<open>MediaFileUpload\<close>\<close>
  files_update :: "string option outcome"  \<comment> \<open>\<open>file.get('id')\<close> after \<open>update\<close>\<close>
  files_create :: "string option outcome"  \<comment> \<open>\<open>file.get('id')\<close> after \<open>create\<close>\<close>

section \<open>\<open>GoogleDriveHandler\<close>\<close>

record google_drive_handler =
  service :: bool  \<comment> \<open>whether \<open>self.service\<close> is set\<close>
  folder_id :: "string option"

definition create_or_get_folder ::
  "'f env \<Rightarrow> google_drive_handler \<Rightarrow> string option \<times> google_drive_handler \<times> string list" where
  \<comment> \<open>Returns the value returned, the handler afterwards, and the lines printed.\<close>
  "create_or_get_folder e d =
     (if \<not> service d then (None, d, [])
      else
        (case folders_list e of
           Raises msg \<Rightarrow> (None, d, [''Error creating/getting folder: '' @ msg])
         | Returns folders \<Rightarrow>
             (case folders of
                fid # _ \<Rightarrow>
                  (Some fid, d\<lparr>folder_id := Some fid\<rparr>, [''Found existing folder: Chartink_Data''])
              | [] \<Rightarrow>
                  (case folders_create e of
                     Raises msg \<Rightarrow> (None, d, [''Error creating/getting folder: '' @ msg])
                   | Returns fid \<Rightarrow>
                       (fid, d\<lparr>folder_id := fid\<rparr>, [''Created new folder: Chartink_Data''])))))"

definition upload_file ::
  "'f env \<Rightarrow> google_drive_handler \<Rightarrow> string option \<times> google_drive_handler \<times> string list" where
  "upload_file e d =
     (if \<not> service d then (None, d, [])
      else
        (let (r, d1, out1) =
               (if folder_id d = None \<or> folder_id d = Some []
                then create_or_get_folder e d else (None, d, []))
         in case files_list e of
              Raises msg \<Rightarrow> (None, d1, out1 @ [''Error uploading to Google Drive: '' @ msg])
            | Returns existing_files \<Rightarrow>
                (case media_file_upload e of
                   Raises msg \<Rightarrow> (None, d1, out1 @ [''Error uploading to Google Drive: '' @ msg])
                 | Returns u \<Rightarrow>
                     (case existing_files of
                        file_id # _ \<Rightarrow>
                          (case files_update e of
                             Raises msg \<Rightarrow>
                               (None, d1, out1 @ [''Error uploading to Google Drive: '' @ msg])
                           | Returns fid \<Rightarrow>
                               (fid, d1, out1 @ [''Updated file in Google Drive'']))
                      | [] \<Rightarrow>
                          (case files_create e of
                             Raises msg \<Rightarrow>
                               (None, d1, out1 @ [''Error uploading to Google Drive: '' @ msg])
                           | Returns fid \<Rightarrow>
                               (fid, d1, out1 @ [''Uploaded new file to Google Drive'']))))))"

section \<open>\<open>ChartinkWebhookHandler\<close>\<close>

record 'f handler =
  excel_file :: "'f file_state"  \<comment> \<open>what is stored under \<open>self.excel_file\<close>\<close>
  use_google_drive :: bool
  drive_handler :: "google_drive_handler option"
  current_iteration :: int
  console :: "string list"  \<comment> \<open>the lines printed by the Drive handler, oldest first\<close>

definition initialize_drive :: "bool \<Rightarrow> unit outcome \<Rightarrow> bool \<times> string list" where
  \<comment> \<open>\<open>GoogleDriveHandler.initialize_drive\<close>, from whether the credential file exists and
      what building the client does: whether \<open>self.service\<close> is set afterwards, and the
      line printed.\<close>
  "initialize_drive credentials_exist build_client =
     (if \<not> credentials_exist
      then (False, [''Warning: credentials.json not found. Google Drive disabled.''])
      else (case build_client of
              Raises msg \<Rightarrow> (False, [''Error initializing Google Drive: '' @ msg])
            | Returns u \<Rightarrow> (True, [''Google Drive API initialized successfully''])))"

definition init_handler :: "'f file_state \<Rightarrow> bool \<Rightarrow> bool \<Rightarrow> unit outcome \<Rightarrow> 'f handler" where
  \<comment> \<open>\<open>ChartinkWebhookHandler.__init__\<close>, which builds the Drive handler when Drive is in
      use and then scans the workbook.\<close>
  "init_handler file use_drive credentials_exist build_client =
     \<lparr> excel_file = file,
       use_google_drive = use_drive,
       drive_handler =
         (if use_drive
          then Some \<lparr> service = fst (initialize_drive credentials_exist build_client),
                      folder_id = None \<rparr>
          else None),
       current_iteration = get_next_iteration_number file,
       console = (if use_drive then snd (initialize_drive credentials_exist build_client) else []) \<rparr>"

record 'f stock_row =
  Sr_No :: int
  Stock_Symbol :: string
  Trigger_Price :: "'f json"
  Scan_Name :: "'f json"
  Alert_Name :: "'f json"
  Triggered_At :: "'f json"
  Date_Added :: string
  Iteration :: int
  Alert_Time :: string
  Scan_URL :: "'f json"

definition get_default :: "(string \<times> 'f json) list \<Rightarrow> string \<Rightarrow> 'f json \<Rightarrow> 'f json" where
  \<comment> \<open>\<open>alert_data.get(key, default)\<close>\<close>
  "get_default kvs k dflt = (case dict_get kvs k of Some v \<Rightarrow> v | None \<Rightarrow> dflt)"

definition parse_trigger_prices :: "'f env \<Rightarrow> (string \<times> 'f json) list \<Rightarrow> 'f list" where
  \<comment> \<open>One entry that does not parse empties the whole list.\<close>
  "parse_trigger_prices e alert_data =
     (case dict_get alert_data ''trigger_prices'' of
        Some (JStr s) \<Rightarrow>
          (case those (map (\<lambda>p. parse_float e (strip p)) (split_on CHR '','' s)) of
             Some ps \<Rightarrow> ps
           | None \<Rightarrow> [])
      | _ \<Rightarrow> [])"

fun rows_loop ::
  "'f env \<Rightarrow> (string \<times> 'f json) list \<Rightarrow> int \<Rightarrow> 'f list \<Rightarrow> nat \<Rightarrow> string list
     \<Rightarrow> 'f stock_row list \<Rightarrow> 'f stock_row list" where
  \<comment> \<open>\<open>for i, stock in enumerate(stocks, 1)\<close>; the last argument is \<open>stock_data\<close>.\<close>
  "rows_loop e alert_data iteration trigger_prices i [] stock_data = stock_data"
| "rows_loop e alert_data iteration trigger_prices i (stock # rest) stock_data =
     (let trigger_price =
            (if i - 1 < length trigger_prices then JFloat (trigger_prices ! (i - 1)) else JInt 0)
      in rows_loop e alert_data iteration trigger_prices (i + 1) rest
           (stock_data @
            [\<lparr> Sr_No = int i,
               Stock_Symbol = stock,
               Trigger_Price = trigger_price,
               Scan_Name = get_default alert_data ''scan_name'' (JStr ''Unknown''),
               Alert_Name = get_default alert_data ''alert_name'' (JStr ''Chartink Alert''),
               Triggered_At = get_default alert_data ''triggered_at'' (JStr (strftime_hm e)),
               Date_Added = strftime_date e,
               Iteration = iteration,
               Alert_Time = strftime_time e,
               Scan_URL = get_default alert_data ''scan_url'' (JStr []) \<rparr>]))"

definition float_column :: "'f stock_row list \<Rightarrow> bool" where
  \<comment> \<open>Whether the \<open>Trigger_Price\<close> column of the frame is a column of floats: some row
      holds a parsed price.\<close>
  "float_column stock_data =
     list_ex (\<lambda>r. case Trigger_Price r of JFloat x \<Rightarrow> True | _ \<Rightarrow> False) stock_data"

definition row_cells :: "'f env \<Rightarrow> bool \<Rightarrow> 'f stock_row \<Rightarrow> 'f json list" where
  \<comment> \<open>\<open>row.tolist()\<close>: the values of a row in the order of the columns. In a column of
      floats \<open>pandas\<close> has turned the integer 0 of a symbol without price into 0.0.\<close>
  "row_cells e floats r =
     [JInt (Sr_No r), JStr (Stock_Symbol r),
      (case Trigger_Price r of
         JInt n \<Rightarrow> if floats then JFloat (float_of_int e n) else JInt n
       | v \<Rightarrow> v),
      Scan_Name r, Alert_Name r, Triggered_At r, JStr (Date_Added r), JInt (Iteration r),
      JStr (Alert_Time r), Scan_URL r]"

definition columns :: "'f stock_row list \<Rightarrow> 'f json list" where
  \<comment> \<open>\<open>list(df.columns)\<close>: a frame built from no rows has no columns.\<close>
  "columns stock_data =
     (if stock_data = [] then []
      else map JStr [''Sr_No'', ''Stock_Symbol'', ''Trigger_Price'', ''Scan_Name'', ''Alert_Name'',
                     ''Triggered_At'', ''Date_Added'', ''Iteration'', ''Alert_Time'', ''Scan_URL''])"

definition sheet_rows :: "'f env \<Rightarrow> 'f stock_row list \<Rightarrow> 'f json list list" where
  \<comment> \<open>What lines 253 to 255 append: the names of the columns, then each row of the frame.\<close>
  "sheet_rows e stock_data =
     columns stock_data # map (row_cells e (float_column stock_data)) stock_data"

definition new_workbook :: "'f sheet list" where
  "new_workbook =
     [(''Master_List'',
       [map JStr [''Stock_Symbol'', ''First_Appearance_Date'', ''First_Iteration'',
                  ''Total_Appearances'', ''Last_Updated'']]),
      (''TradingView_Export'', [[JStr ''TradingView_Symbols'']])]"

definition error_result :: "string \<Rightarrow> 'f json" where
  "error_result msg = JObj [(''status'', JStr ''error''), (''message'', JStr msg)]"

definition success_result :: "string list \<Rightarrow> int \<Rightarrow> 'f json" where
  "success_result stocks iteration =
     JObj [(''status'', JStr ''success''),
           (''message'',
            JStr (''Added '' @ str_int (int (length stocks)) @ '' stocks to iteration ''
                  @ str_int iteration)),
           (''stocks'', JList (map JStr stocks)),
           (''iteration'', JInt iteration)]"

definition sheet_name_of :: "int \<Rightarrow> string" where
  \<comment> \<open>\<open>f"Iteration_{self.current_iteration}"\<close>\<close>
  "sheet_name_of n = ''Iteration_'' @ str_int n"

definition replace_iteration_sheet ::
  "string \<Rightarrow> 'f json list list \<Rightarrow> 'f sheet list \<Rightarrow> 'f sheet list" where
  \<comment> \<open>Lines 249 to 255: remove the sheet of that name if there is one, create it, fill it.\<close>
  "replace_iteration_sheet sheet_name rows workbook =
     create_sheet sheet_name rows
       (if sheet_name \<in> set (sheetnames workbook) then remove_sheet sheet_name workbook
        else workbook)"

definition run_upload :: "'f env \<Rightarrow> 'f handler \<Rightarrow> 'f handler" where
  \<comment> \<open>Lines 259 and 260; the value \<open>upload_file\<close> returns is dropped.\<close>
  "run_upload e h =
     (case drive_handler h of
        Some d \<Rightarrow>
          (if use_google_drive h \<and> service d
           then (let (r, d', out) = upload_file e d
                 in h\<lparr>drive_handler := Some d', console := console h @ out\<rparr>)
           else h)
      | None \<Rightarrow> h)"

definition write_iteration ::
  "'f env \<Rightarrow> 'f handler \<Rightarrow> 'f sheet list \<Rightarrow> string list \<Rightarrow> 'f stock_row list
     \<Rightarrow> 'f json \<times> 'f handler" where
  \<comment> \<open>Lines 249 to 269, entered with the workbook that was created or loaded.\<close>
  "write_iteration e h workbook stocks stock_data =
     (let sheet_name = sheet_name_of (current_iteration h);
          workbook' =
            replace_iteration_sheet sheet_name (sheet_rows e stock_data) workbook
      in case append_rows e of
           Raises msg \<Rightarrow> (error_result msg, h)
         | Returns u \<Rightarrow>
             (case save_workbook e of
                Raises msg \<Rightarrow> (error_result msg, h)
              | Returns u' \<Rightarrow>
                  (let h1 = run_upload e (h\<lparr>excel_file := Workbook workbook'\<rparr>);
                       h2 = h1\<lparr>current_iteration := current_iteration h1 + 1\<rparr>
                   in (success_result stocks (current_iteration h2 - 1), h2))))"

definition add_stocks_to_excel ::
  "'f env \<Rightarrow> 'f handler \<Rightarrow> string list \<Rightarrow> (string \<times> 'f json) list \<Rightarrow> 'f json \<times> 'f handler" where
  "add_stocks_to_excel e h stocks alert_data =
     (let trigger_prices = parse_trigger_prices e alert_data;
          stock_data = rows_loop e alert_data (current_iteration h) trigger_prices 1 stocks []
      in case excel_file h of
           Missing \<Rightarrow>
             (case save_new_workbook e of
                Raises msg \<Rightarrow> (error_result msg, h)
              | Returns u \<Rightarrow>
                  write_iteration e (h\<lparr>excel_file := Workbook new_workbook\<rparr>) new_workbook
                    stocks stock_data)
         | Unreadable msg \<Rightarrow> (error_result msg, h)
         | Workbook workbook \<Rightarrow> write_iteration e h workbook stocks stock_data)"

definition process_chartink_alert :: "'f env \<Rightarrow> 'f handler \<Rightarrow> 'f json \<Rightarrow> 'f json \<times> 'f handler" where
  \<comment> \<open>Extraction gives \<open>[]\<close> for anything but a \<open>dict\<close>, so the last case is never reached.\<close>
  "process_chartink_alert e h alert_data =
     (let stocks = extract_stocks_from_alert alert_data
      in if stocks = [] then (error_result ''No stocks found in alert'', h)
         else (case alert_data of
                 JObj kvs \<Rightarrow> add_stocks_to_excel e h stocks kvs
               | _ \<Rightarrow> (error_result ''No stocks found in alert'', h)))"

section \<open>The endpoint: \<open>chartink_webhook\<close>\<close>

record 'f request =
  get_json :: "'f json option outcome"  \<comment> \<open>what \<open>request.get_json()\<close> does\<close>
  form :: "(string \<times> string) list"  \<comment> \<open>\<open>request.form.to_dict()\<close>\<close>

definition is_success :: "'f json \<Rightarrow> bool" where
  \<comment> \<open>\<open>result["status"] == "success"\<close>\<close>
  "is_success result =
     (case result of
        JObj kvs \<Rightarrow>
          (case dict_get kvs ''status'' of Some (JStr s) \<Rightarrow> s = ''success'' | _ \<Rightarrow> False)
      | _ \<Rightarrow> False)"

definition chartink_webhook ::
  "('f::zero) env \<Rightarrow> 'f handler \<Rightarrow> 'f request \<Rightarrow> ('f json \<times> nat) \<times> 'f handler" where
  \<comment> \<open>Returns the JSON body with the HTTP status, and the handler afterwards.\<close>
  "chartink_webhook e h req =
     (case get_json req of
        Raises msg \<Rightarrow> ((error_result msg, 500), h)
      | Returns body \<Rightarrow>
          (let form_dict = JObj (map (\<lambda>kv. (fst kv, JStr (snd kv))) (form req));
               alert_data =
                 (case body of
                    Some v \<Rightarrow> if truthy v then v else form_dict
                  | None \<Rightarrow> form_dict)
           in if \<not> truthy alert_data then ((error_result ''No data received'', 400), h)
              else (let (result, h') = process_chartink_alert e h alert_data;
                        status_code = (if is_success result then 200 else 400)
                    in ((result, status_code), h'))))"

section \<open>Notions used to state the properties\<close>

definition sheet_number :: "string \<Rightarrow> int option" where
  \<comment> \<open>The integer a sheet name carries for the scan: \<open>int(sheet.split('_')[1])\<close>, if that
      piece exists and parses.\<close>
  "sheet_number sheet =
     (case split_on CHR ''_'' sheet of
        p0 # p1 # ps \<Rightarrow> py_int p1
      | _ \<Rightarrow> None)"

definition iteration_numbers :: "'f sheet list \<Rightarrow> int list" where
  \<comment> \<open>The integers carried by the sheets whose name starts with \<open>Iteration_\<close>, in order.\<close>
  "iteration_numbers wb =
     List.map_filter sheet_number (filter (prefix ''Iteration_'') (sheetnames wb))"

definition stored_sheetnames :: "'f file_state \<Rightarrow> string list" where
  "stored_sheetnames f = (case f of Workbook wb \<Rightarrow> sheetnames wb | _ \<Rightarrow> [])"

definition write_succeeds :: "'f env \<Rightarrow> 'f handler \<Rightarrow> bool" where
  \<comment> \<open>No step of the workbook write raises: creating or loading, filling, saving.\<close>
  "write_succeeds e h =
     ((case excel_file h of
         Missing \<Rightarrow> save_new_workbook e = Returns ()
       | Unreadable msg \<Rightarrow> False
       | Workbook wb \<Rightarrow> True)
      \<and> append_rows e = Returns () \<and> save_workbook e = Returns ())"

definition string_entries :: "'f json list \<Rightarrow> string list" where
  \<comment> \<open>The entries of a list that are strings, in order.\<close>
  "string_entries vs = List.map_filter (\<lambda>v. case v of JStr s \<Rightarrow> Some s | _ \<Rightarrow> None) vs"

definition accepted :: "string \<Rightarrow> bool" where
  "accepted c = (c \<noteq> [] \<and> length c \<le> 20)"

definition drive_down :: "real env" where
  \<comment> \<open>An environment for examples: the workbook can be written, every Drive call raises,
      and \<open>float\<close> knows the two prices of the specification's example.\<close>
  "drive_down =
     \<lparr> strftime_date = ''2024-01-15'', strftime_time = ''09:30:00'', strftime_hm = ''09:30 AM'',
       parse_float =
         (\<lambda>s. if s = ''3500'' then Some 3500 else if s = ''1500'' then Some 1500 else None),
       float_of_int = of_int,
       save_new_workbook = Returns (), append_rows = Returns (), save_workbook = Returns (),
       folders_list = Raises ''timeout'', folders_create = Raises ''timeout'',
       files_list = Raises ''timeout'', media_file_upload = Returns (),
       files_update = Raises ''timeout'', files_create = Raises ''timeout'' \<rparr>"

definition loaded :: "'f file_state \<Rightarrow> 'f sheet list" where
  \<comment> \<open>The workbook the write starts from: the one stored, or the one just created.\<close>
  "loaded f = (case f of Workbook wb \<Rightarrow> wb | _ \<Rightarrow> new_workbook)"

definition upload_error :: "'f env \<Rightarrow> string option" where
  \<comment> \<open>The message of the first exception among the calls \<open>upload_file\<close> makes itself
      (listing the files, opening the media, updating or creating the file), if one raises.\<close>
  "upload_error e =
     (case files_list e of
        Raises msg \<Rightarrow> Some msg
      | Returns existing_files \<Rightarrow>
          (case media_file_upload e of
             Raises msg \<Rightarrow> Some msg
           | Returns u \<Rightarrow>
               (case existing_files of
                  file_id # _ \<Rightarrow> (case files_update e of Raises msg \<Rightarrow> Some msg | Returns fid \<Rightarrow> None)
                | [] \<Rightarrow> (case files_create e of Raises msg \<Rightarrow> Some msg | Returns fid \<Rightarrow> None))))"

definition folder_down :: "real env" where
  \<comment> \<open>As \<open>drive_down\<close>, but only the folder lookup raises; the file calls go through.\<close>
  "folder_down =
     drive_down \<lparr> files_list := Returns [], files_create := Returns (Some ''file-1'') \<rparr>"

definition make_row ::
  "'f env \<Rightarrow> (string \<times> 'f json) list \<Rightarrow> int \<Rightarrow> 'f list \<Rightarrow> nat \<Rightarrow> string \<Rightarrow> 'f stock_row" where
  \<comment> \<open>The row built for the symbol that \<open>enumerate(stocks, 1)\<close> numbers \<open>i\<close>.\<close>
  "make_row e alert_data iteration trigger_prices i stock =
     \<lparr> Sr_No = int i,
       Stock_Symbol = stock,
       Trigger_Price =
         (if i - 1 < length trigger_prices then JFloat (trigger_prices ! (i - 1)) else JInt 0),
       Scan_Name = get_default alert_data ''scan_name'' (JStr ''Unknown''),
       Alert_Name = get_default alert_data ''alert_name'' (JStr ''Chartink Alert''),
       Triggered_At = get_default alert_data ''triggered_at'' (JStr (strftime_hm e)),
       Date_Added = strftime_date e,
       Iteration = iteration,
       Alert_Time = strftime_time e,
       Scan_URL = get_default alert_data ''scan_url'' (JStr []) \<rparr>"

definition example_alert :: "(string \<times> 'f json) list" where
  "example_alert = [(''stocks'', JStr ''NSE:TCS, INFY.NS''), (''trigger_prices'', JStr ''3500,1500'')]"

definition titles_distinct :: "'f sheet list \<Rightarrow> bool" where
  \<comment> \<open>The invariant of a workbook: no two sheets have the same title, letter case ignored.\<close>
  "titles_distinct wb = distinct (map lower (sheetnames wb))"

definition case_variant :: "string \<Rightarrow> 'f sheet list \<Rightarrow> bool" where
  \<comment> \<open>Some sheet's title differs from \<open>name\<close>, but only in letter case.\<close>
  "case_variant name wb = list_ex (\<lambda>t. lower t = lower name \<and> t \<noteq> name) (sheetnames wb)"

definition renamed_book :: "real file_state" where
  \<comment> \<open>A workbook in which somebody renamed the first iteration sheet in capitals.\<close>
  "renamed_book = Workbook [(''Master_List'', []), (''ITERATION_1'', [])]"

definition canonical_number :: "string \<Rightarrow> int option" where
  \<comment> \<open>The integer \<open>N\<close> of a sheet whose name is exactly \<open>Iteration_N\<close>, as \<open>str\<close> writes
      \<open>N\<close>.\<close>
  "canonical_number name =
     (case sheet_number name of
        Some n \<Rightarrow> if name = sheet_name_of n then Some n else None
      | None \<Rightarrow> None)"

definition stated_iteration :: "string list \<Rightarrow> int" where
  \<comment> \<open>The number the specification's sentence gives for a workbook with these sheet
      names: 1 without a sheet \<open>Iteration_...\<close>, else one more than the largest \<open>N\<close> of
      the sheets named \<open>Iteration_N\<close>.\<close>
  "stated_iteration names =
     (if filter (prefix ''Iteration_'') names = [] then 1
      else 1 + Max (set (List.map_filter canonical_number names)))"

definition empty_json_post :: "string \<Rightarrow> 'f request" where
  \<comment> \<open>A POST with an empty body sent as \<open>application/json\<close>: decoding the body fails, and
      \<open>get_json\<close>, called without \<open>silent\<close>, raises \<open>BadRequest\<close>, whose text is the
      argument. There are no form fields.\<close>
  "empty_json_post msg = \<lparr> get_json = Raises msg, form = [] \<rparr>"

declare str_nat.simps [simp del]
declare title_counts.simps [simp del]

section \<open>Facts about the string functions\<close>

lemma numbers_loop_eq: "numbers_loop names acc = acc @ List.map_filter sheet_number names"
  by (induction names arbitrary: acc)
     (auto simp: List.map_filter_simps sheet_number_def split: list.splits option.splits)

lemma py_max_eq: "ns \<noteq> [] \<Longrightarrow> py_max ns = Max (set ns)"
  by (cases ns) (simp_all add: py_max_def Max.set_eq_fold[symmetric])

lemma get_next_workbook:
  "get_next_iteration_number (Workbook wb) =
     (if iteration_numbers wb = [] then 1 else Max (set (iteration_numbers wb)) + 1)"
  by (auto simp: get_next_iteration_number_def Let_def numbers_loop_eq iteration_numbers_def
        py_max_eq List.map_filter_simps)

lemma digit_cases: "k < 10 \<Longrightarrow> k = 0 \<or> k = 1 \<or> k = 2 \<or> k = 3 \<or> k = 4 \<or> k = 5 \<or> k = 6 \<or> k = 7 \<or> k = 8 \<or> k = (9::nat)"
  by arith

lemma digit_nth:
  assumes "k < 10"
  shows "is_digit (''0123456789'' ! k)" "digit_val (''0123456789'' ! k) = k"
    "\<not> is_space (''0123456789'' ! k)" "''0123456789'' ! k \<noteq> CHR ''_''"
    "''0123456789'' ! k \<noteq> CHR ''-''" "''0123456789'' ! k \<noteq> CHR ''+''"
  using digit_cases[OF assms] by (auto simp: is_digit_def digit_val_def is_space_def)

lemma str_nat_digits: "list_all is_digit (str_nat n)"
  by (induction n rule: str_nat.induct) (subst str_nat.simps, simp add: digit_nth)

lemma str_nat_nonempty: "str_nat n \<noteq> []"
  by (subst str_nat.simps) simp

lemma nat_of_digits_snoc: "nat_of_digits (ds @ [c]) = 10 * nat_of_digits ds + digit_val c"
  by (simp add: nat_of_digits_def)

lemma nat_of_digits_str_nat: "nat_of_digits (str_nat n) = n"
proof (induction n rule: str_nat.induct)
  case (1 n)
  show ?case
  proof (cases "n < 10")
    case True
    then show ?thesis
      by (subst str_nat.simps) (simp add: nat_of_digits_def digit_nth)
  next
    case False
    with 1 show ?thesis
      by (subst str_nat.simps) (simp add: nat_of_digits_snoc digit_nth)
  qed
qed


lemma str_nat_no_space: "c \<in> set (str_nat n) \<Longrightarrow> \<not> is_space c \<and> c \<noteq> CHR ''_'' \<and> c \<noteq> CHR ''-'' \<and> c \<noteq> CHR ''+''"
  by (induction n rule: str_nat.induct) (subst (asm) str_nat.simps, auto simp: digit_nth split: if_splits)

lemma strip_id:
  assumes "s \<noteq> []" "\<not> is_space (hd s)" "\<not> is_space (last s)"
  shows "strip s = s"
proof -
  have a: "dropWhile is_space s = s"
    using assms by (cases s) auto
  have "rev s \<noteq> []" "\<not> is_space (hd (rev s))"
    using assms by (simp_all add: hd_rev)
  then have "dropWhile is_space (rev s) = rev s"
    by (cases "rev s") simp_all
  with a show ?thesis
    by (simp add: strip_def)
qed

lemma strip_str_nat: "strip (str_nat m) = str_nat m"
proof (rule strip_id)
  show "str_nat m \<noteq> []" by (rule str_nat_nonempty)
  then have "hd (str_nat m) \<in> set (str_nat m)" "last (str_nat m) \<in> set (str_nat m)"
    by simp_all
  then show "\<not> is_space (hd (str_nat m))" "\<not> is_space (last (str_nat m))"
    using str_nat_no_space by blast+
qed

lemma py_int_str_nat: "py_int (str_nat m) = Some (int m)"
proof -
  obtain c r where cr: "str_nat m = c # r"
    using str_nat_nonempty by (cases "str_nat m") auto
  then have "c \<in> set (str_nat m)" by simp
  then have "c \<noteq> CHR ''-''" "c \<noteq> CHR ''+''"
    using str_nat_no_space by blast+
  moreover have "list_all is_digit (c # r)" "nat_of_digits (c # r) = m"
    using str_nat_digits[of m] nat_of_digits_str_nat[of m] cr by simp_all
  ultimately show ?thesis
    using cr strip_str_nat[of m] by (simp add: py_int_def)
qed

lemma py_int_minus_str_nat: "py_int (CHR ''-'' # str_nat m) = Some (- int m)"
proof -
  have "strip (CHR ''-'' # str_nat m) = CHR ''-'' # str_nat m"
  proof (rule strip_id)
    show "\<not> is_space (hd (CHR ''-'' # str_nat m))" by (simp add: is_space_def)
    have "\<not> is_space (last (str_nat m))"
      using str_nat_no_space[of "last (str_nat m)" m] str_nat_nonempty[of m] by simp
    then show "\<not> is_space (last (CHR ''-'' # str_nat m))"
      by (simp add: str_nat_nonempty)
  qed simp
  then show ?thesis
    by (simp add: py_int_def str_nat_nonempty str_nat_digits nat_of_digits_str_nat)
qed

lemma py_int_str_int: "py_int (str_int n) = Some n"
  by (simp add: str_int_def py_int_str_nat py_int_minus_str_nat)

lemma split_on_no_sep: "sep \<notin> set s \<Longrightarrow> split_on sep s = [s]"
  by (induction s) auto

lemma split_on_append: "sep \<notin> set a \<Longrightarrow> split_on sep (a @ sep # b) = a # split_on sep b"
  by (induction a) auto

lemma str_int_no_underscore: "CHR ''_'' \<notin> set (str_int n)"
  using str_nat_no_space by (auto simp: str_int_def)

lemma sheet_number_name: "sheet_number (sheet_name_of n) = Some n"
proof -
  have "split_on CHR ''_'' (''Iteration'' @ CHR ''_'' # str_int n) = ''Iteration'' # split_on CHR ''_'' (str_int n)"
    by (rule split_on_append) simp
  then show ?thesis
    by (simp add: sheet_number_def sheet_name_of_def split_on_no_sep[OF str_int_no_underscore] py_int_str_int)
qed

lemma sheet_name_prefix: "prefix ''Iteration_'' (sheet_name_of n)"
  by (simp add: sheet_name_of_def)

section \<open>Facts about the handler\<close>

lemma run_upload_frame:
  "excel_file (run_upload e h) = excel_file h"
  "current_iteration (run_upload e h) = current_iteration h"
  "use_google_drive (run_upload e h) = use_google_drive h"
  by (simp_all add: run_upload_def split: option.split prod.split)

lemma add_stocks_success:
  assumes "write_succeeds e h"
  shows "add_stocks_to_excel e h stocks kvs =
           (success_result stocks (current_iteration h),
            (run_upload e
               (h\<lparr>excel_file := Workbook
                    (replace_iteration_sheet (sheet_name_of (current_iteration h))
                       (let sd = rows_loop e kvs (current_iteration h) (parse_trigger_prices e kvs) 1 stocks []
                        in sheet_rows e sd)
                       (loaded (excel_file h)))\<rparr>))
            \<lparr>current_iteration := current_iteration h + 1\<rparr>)"
  using assms
  by (cases "excel_file h")
     (simp_all add: write_succeeds_def add_stocks_to_excel_def write_iteration_def Let_def
        loaded_def run_upload_frame)

lemma write_iteration_failure:
  assumes "append_rows e \<noteq> Returns () \<or> save_workbook e \<noteq> Returns ()"
  shows "\<exists>msg. write_iteration e h wb stocks sd = (error_result msg, h)"
  using assms
  by (cases "append_rows e"; cases "save_workbook e")
     (auto simp: write_iteration_def Let_def)

lemma add_stocks_failure:
  assumes "\<not> write_succeeds e h"
  shows "\<exists>msg h'. add_stocks_to_excel e h stocks kvs = (error_result msg, h')
           \<and> current_iteration h' = current_iteration h
           \<and> drive_handler h' = drive_handler h \<and> console h' = console h
           \<and> (excel_file h' = excel_file h \<or> excel_file h = Missing)"
proof (cases "excel_file h")
  case Missing
  show ?thesis
  proof (cases "save_new_workbook e")
    case (Raises m)
    with Missing show ?thesis
      by (auto simp: add_stocks_to_excel_def Let_def)
  next
    case (Returns u)
    with Missing assms have "append_rows e \<noteq> Returns () \<or> save_workbook e \<noteq> Returns ()"
      by (auto simp: write_succeeds_def)
    from write_iteration_failure[OF this] Missing Returns show ?thesis
      by (fastforce simp: add_stocks_to_excel_def Let_def)
  qed
next
  case (Unreadable m)
  then show ?thesis
    by (auto simp: add_stocks_to_excel_def Let_def)
next
  case (Workbook wb)
  with assms have "append_rows e \<noteq> Returns () \<or> save_workbook e \<noteq> Returns ()"
    by (auto simp: write_succeeds_def)
  from write_iteration_failure[OF this] Workbook show ?thesis
    by (fastforce simp: add_stocks_to_excel_def Let_def)
qed

lemma extract_nonempty_obj: "extract_stocks_from_alert a \<noteq> [] \<Longrightarrow> \<exists>kvs. a = JObj kvs"
  by (cases a) (simp_all add: extract_stocks_from_alert_def)

lemma process_success:
  assumes "extract_stocks_from_alert a \<noteq> []" "write_succeeds e h"
  shows "process_chartink_alert e h a =
           (success_result (extract_stocks_from_alert a) (current_iteration h),
            (run_upload e
               (h\<lparr>excel_file := Workbook
                    (replace_iteration_sheet (sheet_name_of (current_iteration h))
                       (let kvs = (case a of JObj kvs \<Rightarrow> kvs | _ \<Rightarrow> []);
                            sd = rows_loop e kvs (current_iteration h) (parse_trigger_prices e kvs) 1 (extract_stocks_from_alert a) []
                        in sheet_rows e sd)
                       (loaded (excel_file h)))\<rparr>))
            \<lparr>current_iteration := current_iteration h + 1\<rparr>)"
proof -
  obtain kvs where "a = JObj kvs"
    using extract_nonempty_obj[OF assms(1)] by blast
  then show ?thesis
    using assms by (simp add: process_chartink_alert_def Let_def add_stocks_success)
qed

lemma process_failure:
  assumes "extract_stocks_from_alert a = [] \<or> \<not> write_succeeds e h"
  shows "\<exists>msg h'. process_chartink_alert e h a = (error_result msg, h')
           \<and> current_iteration h' = current_iteration h
           \<and> drive_handler h' = drive_handler h \<and> console h' = console h
           \<and> (excel_file h' = excel_file h \<or> excel_file h = Missing)"
proof (cases "extract_stocks_from_alert a = []")
  case True
  then show ?thesis by (auto simp: process_chartink_alert_def)
next
  case False
  then obtain kvs where "a = JObj kvs"
    using extract_nonempty_obj by blast
  with False assms show ?thesis
    using add_stocks_failure[of e h "extract_stocks_from_alert a" kvs]
    by (auto simp: process_chartink_alert_def Let_def)
qed

lemma is_success_simps: "is_success (success_result s n)" "\<not> is_success (error_result m)"
  by (simp_all add: is_success_def success_result_def error_result_def dict_get_def)

section \<open>Facts about the startup scan\<close>

lemma set_map_filter: "set (List.map_filter f xs) = {y. \<exists>x \<in> set xs. f x = Some y}"
  by (induction xs) (auto simp: List.map_filter_simps split: option.splits)

lemma iteration_numbers_append:
  "iteration_numbers (wb1 @ wb2) = iteration_numbers wb1 @ iteration_numbers wb2"
  by (simp add: iteration_numbers_def sheetnames_def List.map_filter_def)

lemma iteration_numbers_ignored:
  "sheet_number (fst sh) = None \<Longrightarrow> iteration_numbers (sh # wb) = iteration_numbers wb"
  by (simp add: iteration_numbers_def sheetnames_def List.map_filter_simps)

section \<open>The startup scan\<close>

text \<open>
  Claim C10, as amended. The scan has no failing branch: a missing or unreadable file gives
  1; for a workbook it gives 1 when no sheet named \<open>Iteration_...\<close> carries an integer and
  one more than the largest integer carried otherwise. The result is at least 1 whenever
  none of these integers is negative. A sheet whose piece after the first underscore does
  not parse changes nothing, and \<open>Iteration_2_old\<close> counts as 2.
\<close>

theorem scan_result:
  "get_next_iteration_number (Missing :: 'f file_state) = 1
   \<and> get_next_iteration_number (Unreadable msg :: 'f file_state) = 1
   \<and> get_next_iteration_number (Workbook wb) =
       (if iteration_numbers wb = [] then 1 else Max (set (iteration_numbers wb)) + 1)
   \<and> ((\<forall>n \<in> set (iteration_numbers wb). 0 \<le> n) \<longrightarrow> 1 \<le> get_next_iteration_number (Workbook wb))
   \<and> (sheet_number (fst sh) = None \<longrightarrow>
        get_next_iteration_number (Workbook (before @ sh # after)) =
        get_next_iteration_number (Workbook (before @ after)))
   \<and> iteration_numbers (before @ (''Iteration_2_old'', rows) # after) =
       iteration_numbers before @ 2 # iteration_numbers after"
proof -
  have a: "(\<forall>n \<in> set (iteration_numbers wb). 0 \<le> n) \<longrightarrow> 1 \<le> get_next_iteration_number (Workbook wb)"
  proof
    assume nonneg: "\<forall>n \<in> set (iteration_numbers wb). 0 \<le> n"
    show "1 \<le> get_next_iteration_number (Workbook wb)"
    proof (cases "iteration_numbers wb = []")
      case True
      then show ?thesis by (simp add: get_next_workbook)
    next
      case False
      then have "Max (set (iteration_numbers wb)) \<in> set (iteration_numbers wb)"
        by (intro Max_in) simp_all
      with nonneg have "0 \<le> Max (set (iteration_numbers wb))" by blast
      with False show ?thesis by (simp add: get_next_workbook)
    qed
  qed
  have b: "sheet_number (fst sh) = None \<longrightarrow>
        get_next_iteration_number (Workbook (before @ sh # after)) =
        get_next_iteration_number (Workbook (before @ after))"
    by (simp add: get_next_workbook iteration_numbers_append iteration_numbers_ignored)
  have c: "iteration_numbers (before @ (''Iteration_2_old'', rows) # after) =
       iteration_numbers before @ 2 # iteration_numbers after"
  proof -
    have "sheet_number ''Iteration_2_old'' = Some 2"
      by (simp add: sheet_number_def py_int_def strip_def is_space_def is_digit_def
            nat_of_digits_def digit_val_def)
    then have "iteration_numbers ((''Iteration_2_old'', rows) # after) = 2 # iteration_numbers after"
      by (simp add: iteration_numbers_def sheetnames_def List.map_filter_simps)
    then show ?thesis
      by (simp add: iteration_numbers_append[of before])
  qed
  have d: "get_next_iteration_number (Missing :: 'f file_state) = 1"
    "get_next_iteration_number (Unreadable msg :: 'f file_state) = 1"
    by (simp_all add: get_next_iteration_number_def)
  show ?thesis
    using a b c d get_next_workbook[of wb] by blast
qed

theorem scan_result_witness:
  "1 \<le> get_next_iteration_number
          (Workbook [(''Master_List'', []), (''Iteration_1'', []), (''Iteration_2_old'', [])]
             :: real file_state)
   \<and> get_next_iteration_number
        (Workbook ([(''Iteration_4'', [])] @ (''Iteration_abc'', []) # []) :: real file_state) =
      get_next_iteration_number (Workbook ([(''Iteration_4'', [])] @ []) :: real file_state)"
proof -
  have n: "iteration_numbers [(''Master_List'', []), (''Iteration_1'', []), (''Iteration_2_old'', [])
             :: real sheet] = [1, 2]"
    by (simp add: iteration_numbers_def sheetnames_def List.map_filter_simps sheet_number_def
          py_int_def strip_def is_space_def is_digit_def nat_of_digits_def digit_val_def)
  have "\<forall>n \<in> set (iteration_numbers [(''Master_List'', []), (''Iteration_1'', []),
           (''Iteration_2_old'', []) :: real sheet]). 0 \<le> n"
    unfolding n by simp
  moreover have "sheet_number (fst (''Iteration_abc'', [] :: real json list list)) = None"
    by (simp add: sheet_number_def py_int_def strip_def is_space_def is_digit_def)
  ultimately show ?thesis
    using scan_result[where wb = "[(''Master_List'', []), (''Iteration_1'', []), (''Iteration_2_old'', [])]"
        and sh = "(''Iteration_abc'', [])" and before = "[(''Iteration_4'', [])]" and after = "[]"]
    by blast
qed

text \<open>
  Claim C10 as it was stated (the result is always at least 1) fails: \<open>int\<close> accepts a
  sign, so a workbook whose only iteration sheet is \<open>Iteration_-5\<close> starts the counter at
  \<open>-4\<close>.
\<close>

theorem scan_below_one_counterexample:
  "get_next_iteration_number
     (Workbook [(''Master_List'', []), (''Iteration_-5'', [])] :: real file_state) = - 4"
  by (simp add: get_next_iteration_number_def sheetnames_def py_int_def strip_def is_space_def
        is_digit_def nat_of_digits_def digit_val_def py_max_def)

section \<open>The endpoint\<close>

text \<open>
  The branch of the endpoint that answers \<open>No data received\<close>: it is taken when
  \<open>request.get_json()\<close> returns nothing or a value that is false in Python (such as
  \<open>{}\<close> or \<open>null\<close>) and there are no form fields. The response is then HTTP 400 with
  the body \<open>{"status": "error", "message": "No data received"}\<close>, and the handler is left
  as it was.
\<close>

lemma no_data_received:
  assumes "get_json req = Returns body"
    and "case body of None \<Rightarrow> True | Some v \<Rightarrow> \<not> truthy v"
    and "form req = []"
  shows "chartink_webhook e h req =
           ((JObj [(''status'', JStr ''error''), (''message'', JStr ''No data received'')], 400), h)"
  using assms
  by (cases body) (simp_all add: chartink_webhook_def Let_def error_result_def)

text \<open>
  Claim C9 says that a POST with an empty body is answered with HTTP 400 and the body
  \<open>{"status": "error", "message": "No data received"}\<close>, without any alert processing.
  The endpoint does not reach that branch for an empty body: \<open>request.get_json()\<close> is
  called as it is, and on a body that holds no JSON it raises. The exception is caught by
  the endpoint's own handler, which answers HTTP 500 with the text of the exception as the
  message. No alert is processed: the handler is left as it was.
\<close>

theorem empty_body_answered_500:
  "chartink_webhook e h (empty_json_post msg) =
     ((JObj [(''status'', JStr ''error''), (''message'', JStr msg)], 500), h)"
  by (simp add: chartink_webhook_def empty_json_post_def error_result_def)

section \<open>The first iteration number\<close>

lemma numbers_of_named_sheets:
  assumes "\<forall>name \<in> set (sheetnames wb). prefix ''Iteration_'' name \<longrightarrow> (\<exists>n. name = sheet_name_of n)"
  shows "set (iteration_numbers wb) = {n. sheet_name_of n \<in> set (sheetnames wb)}"
proof (intro set_eqI iffI)
  fix n
  assume "n \<in> set (iteration_numbers wb)"
  then obtain name where nm: "name \<in> set (sheetnames wb)" "prefix ''Iteration_'' name"
      "sheet_number name = Some n"
    by (auto simp: iteration_numbers_def set_map_filter)
  with assms obtain k where "name = sheet_name_of k" by blast
  with nm show "n \<in> {n. sheet_name_of n \<in> set (sheetnames wb)}"
    by (simp add: sheet_number_name)
next
  fix n
  assume "n \<in> {n. sheet_name_of n \<in> set (sheetnames wb)}"
  then show "n \<in> set (iteration_numbers wb)"
    using sheet_name_prefix[of n] sheet_number_name[of n]
    by (auto simp: iteration_numbers_def set_map_filter)
qed

lemma no_iteration_sheets:
  "(\<forall>name \<in> set (sheetnames wb). \<not> prefix ''Iteration_'' name) \<Longrightarrow> iteration_numbers wb = []"
  by (simp add: iteration_numbers_def filter_False List.map_filter_simps)

lemma sheet_name_1: "sheet_name_of 1 = ''Iteration_1''"
  by (simp add: sheet_name_of_def str_int_def str_nat.simps)

lemma first_sheet_created:
  "replace_iteration_sheet ''Iteration_1'' rows new_workbook = new_workbook @ [(''Iteration_1'', rows)]"
  by (simp add: replace_iteration_sheet_def create_sheet_def new_workbook_def sheetnames_def
        avoid_duplicate_name_def lower_def lower_char_def)

lemma five_sheets:
  "iteration_numbers (new_workbook @ map (\<lambda>n. (sheet_name_of n, rows n)) [1, 2, 3, 4, 5]) = [1, 2, 3, 4, 5]"
  by (simp add: iteration_numbers_def sheetnames_def new_workbook_def List.map_filter_simps
        sheet_number_name sheet_name_prefix)

lemma tcs_alert: "extract_stocks_from_alert (JObj [(''stocks'', JStr ''TCS'')] :: real json) = [''TCS'']"
  by (simp add: extract_stocks_from_alert_def dict_get_def clean_stock_def strip_def is_space_def
        upper_def upper_char_def)

lemma drive_down_writes: "write_succeeds drive_down (init_handler f u c b) = (\<forall>m. f \<noteq> Unreadable m)"
  by (cases f) (simp_all add: write_succeeds_def drive_down_def init_handler_def)

lemma canonical_numbers:
  "set (List.map_filter canonical_number names) = {n. sheet_name_of n \<in> set names}"
proof -
  have "canonical_number name = Some n \<longleftrightarrow> name = sheet_name_of n" for name n
    using sheet_number_name[of n]
    by (auto simp: canonical_number_def split: option.splits)
  then show ?thesis
    by (auto simp: set_map_filter)
qed

text \<open>
  Claim C1, as amended. At startup the iteration number is 1 when there is no workbook file
  or it cannot be opened. For a workbook it is 1 when no sheet named \<open>Iteration_...\<close>
  carries an integer (the piece after the first underscore, up to the next one, read by
  \<open>int\<close>), and one more than the largest integer carried otherwise. So it is 1 when no
  sheet name starts with \<open>Iteration_\<close>, and when the sheets of that prefix are the sheets
  \<open>Iteration_N\<close> of some integers \<open>N\<close>, it is one more than the largest such \<open>N\<close>; with
  \<open>Iteration_1\<close> to \<open>Iteration_5\<close> beside the two baseline sheets it is 6. A handler
  started without a workbook answers the first alert it can write with iteration 1 and
  stores a sheet \<open>Iteration_1\<close>.
\<close>

theorem initial_iteration_number:
  "get_next_iteration_number (Missing :: 'f file_state) = 1
   \<and> get_next_iteration_number (Unreadable msg :: 'f file_state) = 1
   \<and> get_next_iteration_number (Workbook wb) =
       (if iteration_numbers wb = [] then 1 else 1 + Max (set (iteration_numbers wb)))
   \<and> ((\<forall>name \<in> set (sheetnames wb). \<not> prefix ''Iteration_'' name) \<longrightarrow>
        get_next_iteration_number (Workbook wb) = 1)
   \<and> ((\<exists>name \<in> set (sheetnames wb). prefix ''Iteration_'' name) \<and>
       (\<forall>name \<in> set (sheetnames wb). prefix ''Iteration_'' name \<longrightarrow> (\<exists>n. name = sheet_name_of n)) \<longrightarrow>
        get_next_iteration_number (Workbook wb) = 1 + Max {n. sheet_name_of n \<in> set (sheetnames wb)})
   \<and> get_next_iteration_number
        (Workbook (new_workbook @ map (\<lambda>n. (sheet_name_of n, rows n)) [1, 2, 3, 4, 5])) = 6
   \<and> (extract_stocks_from_alert a \<noteq> [] \<and> write_succeeds (e :: 'f env) (init_handler Missing use_drive creds build) \<longrightarrow>
        fst (process_chartink_alert e (init_handler Missing use_drive creds build) a) =
          success_result (extract_stocks_from_alert a) 1
        \<and> ''Iteration_1'' \<in> set (stored_sheetnames (excel_file
              (snd (process_chartink_alert e (init_handler Missing use_drive creds build) a)))))"
proof -
  have a: "get_next_iteration_number (Missing :: 'f file_state) = 1"
    by (simp add: get_next_iteration_number_def)
  have b: "(\<forall>name \<in> set (sheetnames wb). \<not> prefix ''Iteration_'' name) \<longrightarrow>
        get_next_iteration_number (Workbook wb) = 1"
    using no_iteration_sheets[of wb] by (simp add: get_next_workbook)
  have c: "(\<exists>name \<in> set (sheetnames wb). prefix ''Iteration_'' name) \<and>
       (\<forall>name \<in> set (sheetnames wb). prefix ''Iteration_'' name \<longrightarrow> (\<exists>n. name = sheet_name_of n)) \<longrightarrow>
        get_next_iteration_number (Workbook wb) = 1 + Max {n. sheet_name_of n \<in> set (sheetnames wb)}"
  proof
    assume h: "(\<exists>name \<in> set (sheetnames wb). prefix ''Iteration_'' name) \<and>
       (\<forall>name \<in> set (sheetnames wb). prefix ''Iteration_'' name \<longrightarrow> (\<exists>n. name = sheet_name_of n))"
    then have eq: "set (iteration_numbers wb) = {n. sheet_name_of n \<in> set (sheetnames wb)}"
      using numbers_of_named_sheets by blast
    from h obtain n where "sheet_name_of n \<in> set (sheetnames wb)" by blast
    with eq have "iteration_numbers wb \<noteq> []" by auto
    with eq show "get_next_iteration_number (Workbook wb) = 1 + Max {n. sheet_name_of n \<in> set (sheetnames wb)}"
      by (simp add: get_next_workbook)
  qed
  have d: "get_next_iteration_number
        (Workbook (new_workbook @ map (\<lambda>n. (sheet_name_of n, rows n)) [1, 2, 3, 4, 5])) = 6"
    by (simp only: get_next_workbook five_sheets) simp
  have e: "extract_stocks_from_alert a \<noteq> [] \<and> write_succeeds e (init_handler Missing use_drive creds build) \<longrightarrow>
        fst (process_chartink_alert e (init_handler Missing use_drive creds build) a) =
          success_result (extract_stocks_from_alert a) 1
        \<and> ''Iteration_1'' \<in> set (stored_sheetnames (excel_file
              (snd (process_chartink_alert e (init_handler Missing use_drive creds build) a))))"
  proof
    assume h: "extract_stocks_from_alert a \<noteq> [] \<and> write_succeeds e (init_handler Missing use_drive creds build)"
    have i: "current_iteration (init_handler Missing use_drive creds build :: 'f handler) = 1"
      "excel_file (init_handler Missing use_drive creds build :: 'f handler) = Missing"
      by (simp_all add: init_handler_def get_next_iteration_number_def)
    from h show "fst (process_chartink_alert e (init_handler Missing use_drive creds build) a) =
          success_result (extract_stocks_from_alert a) 1
        \<and> ''Iteration_1'' \<in> set (stored_sheetnames (excel_file
              (snd (process_chartink_alert e (init_handler Missing use_drive creds build) a))))"
      by (simp add: process_success i run_upload_frame loaded_def sheet_name_1 first_sheet_created
            stored_sheetnames_def sheetnames_def)
  qed
  have f: "get_next_iteration_number (Unreadable msg :: 'f file_state) = 1"
    by (simp add: get_next_iteration_number_def)
  have g: "get_next_iteration_number (Workbook wb) =
       (if iteration_numbers wb = [] then 1 else 1 + Max (set (iteration_numbers wb)))"
    by (simp add: get_next_workbook)
  show ?thesis using a b c d e f g by blast
qed

theorem initial_iteration_number_witness:
  "get_next_iteration_number
     (Workbook [(''Master_List'', []), (''Iteration_1'', []), (''Iteration_3'', [])] :: real file_state) =
     1 + Max {n. sheet_name_of n \<in> set (sheetnames
           [(''Master_List'', []), (''Iteration_1'', []), (''Iteration_3'', []) :: real sheet])}
   \<and> get_next_iteration_number (Workbook [(''Master_List'', [])] :: real file_state) = 1
   \<and> fst (process_chartink_alert drive_down (init_handler Missing True True (Returns ()))
             (JObj [(''stocks'', JStr ''TCS'')])) = success_result [''TCS''] 1"
proof -
  let ?wb = "[(''Master_List'', []), (''Iteration_1'', []), (''Iteration_3'', [])] :: real sheet list"
  have n: "''Iteration_1'' = sheet_name_of 1" "''Iteration_3'' = sheet_name_of 3"
    by (simp_all add: sheet_name_of_def str_int_def str_nat.simps)
  have h1: "\<exists>name \<in> set (sheetnames ?wb). prefix ''Iteration_'' name"
    by (simp add: sheetnames_def)
  have h2: "\<forall>name \<in> set (sheetnames ?wb). prefix ''Iteration_'' name \<longrightarrow> (\<exists>n. name = sheet_name_of n)"
    using n by (auto simp: sheetnames_def)
  have h3: "\<forall>name \<in> set (sheetnames [(''Master_List'', []) :: real sheet]). \<not> prefix ''Iteration_'' name"
    by (simp add: sheetnames_def)
  have h4: "extract_stocks_from_alert (JObj [(''stocks'', JStr ''TCS'')] :: real json) \<noteq> []
      \<and> write_succeeds drive_down (init_handler Missing True True (Returns ()))"
    by (simp add: tcs_alert drive_down_writes)
  from initial_iteration_number[where wb = ?wb, THEN conjunct2, THEN conjunct2, THEN conjunct2,
      THEN conjunct2, THEN conjunct1] h1 h2
  have c1: "get_next_iteration_number (Workbook ?wb) = 1 + Max {n. sheet_name_of n \<in> set (sheetnames ?wb)}"
    by blast
  from initial_iteration_number[where wb = "[(''Master_List'', []) :: real sheet]", THEN conjunct2,
      THEN conjunct2, THEN conjunct2, THEN conjunct1] h3
  have c2: "get_next_iteration_number (Workbook [(''Master_List'', [])] :: real file_state) = 1"
    by blast
  from initial_iteration_number[where a = "JObj [(''stocks'', JStr ''TCS'')] :: real json" and e = drive_down
      and use_drive = True and creds = True and build = "Returns ()", THEN conjunct2, THEN conjunct2,
      THEN conjunct2, THEN conjunct2, THEN conjunct2, THEN conjunct2] h4
  have c3: "fst (process_chartink_alert drive_down (init_handler Missing True True (Returns ()))
             (JObj [(''stocks'', JStr ''TCS'')])) = success_result [''TCS''] 1"
    by (simp add: tcs_alert)
  from c1 c2 c3 show ?thesis by blast
qed

text \<open>
  Claim C1 as it was stated takes the largest \<open>N\<close> over the sheets named \<open>Iteration_N\<close>,
  for every workbook. The scan reads the piece between the first and the second
  underscore, so a sheet \<open>Iteration_5_old\<close> counts as 5: beside \<open>Iteration_1\<close> it makes
  the next number 6, where the stated rule gives 2.
\<close>

theorem suffixed_sheet_counterexample:
  "get_next_iteration_number
     (Workbook [(''Iteration_1'', []), (''Iteration_5_old'', [])] :: real file_state) = 6
   \<and> stated_iteration [''Iteration_1'', ''Iteration_5_old''] = 2"
proof -
  have n: "sheet_number ''Iteration_1'' = Some 1" "sheet_number ''Iteration_5_old'' = Some 5"
    by (simp_all add: sheet_number_def py_int_def strip_def is_space_def is_digit_def
          nat_of_digits_def digit_val_def)
  have s: "sheet_name_of 1 = ''Iteration_1''" "sheet_name_of 5 = ''Iteration_5''"
    by (simp_all add: sheet_name_of_def str_int_def str_nat.simps)
  have "iteration_numbers [(''Iteration_1'', []), (''Iteration_5_old'', []) :: real sheet] = [1, 5]"
    by (simp add: iteration_numbers_def sheetnames_def List.map_filter_simps n)
  then have a: "get_next_iteration_number
     (Workbook [(''Iteration_1'', []), (''Iteration_5_old'', [])] :: real file_state) = 6"
    by (simp add: get_next_workbook)
  have "List.map_filter canonical_number [''Iteration_1'', ''Iteration_5_old''] = [1]"
    by (simp add: List.map_filter_simps canonical_number_def n s)
  then have b: "stated_iteration [''Iteration_1'', ''Iteration_5_old''] = 2"
    by (simp add: stated_iteration_def)
  from a b show ?thesis by blast
qed

section \<open>The iteration counter\<close>

lemma webhook_process:
  assumes "get_json req = Returns body"
    and "alert = (case body of Some v \<Rightarrow> if truthy v then v
                    else JObj (map (\<lambda>kv. (fst kv, JStr (snd kv))) (form req))
                  | None \<Rightarrow> JObj (map (\<lambda>kv. (fst kv, JStr (snd kv))) (form req)))"
    and "truthy alert"
  shows "chartink_webhook e h req =
           ((fst (process_chartink_alert e h alert),
             if is_success (fst (process_chartink_alert e h alert)) then 200 else 400),
            snd (process_chartink_alert e h alert))"
  using assms by (simp add: chartink_webhook_def Let_def split: prod.split)

lemma webhook_counter:
  assumes "chartink_webhook e h req = ((body, code), h')"
  shows "current_iteration h' = (if code = 200 then current_iteration h + 1 else current_iteration h)"
proof (cases "get_json req")
  case (Raises m)
  with assms show ?thesis by (auto simp: chartink_webhook_def)
next
  case (Returns b)
  define alert where "alert = (case b of Some v \<Rightarrow> if truthy v then v
                    else JObj (map (\<lambda>kv. (fst kv, JStr (snd kv))) (form req))
                  | None \<Rightarrow> JObj (map (\<lambda>kv. (fst kv, JStr (snd kv))) (form req)))"
  show ?thesis
  proof (cases "truthy alert")
    case False
    with assms Returns show ?thesis
      by (auto simp: chartink_webhook_def Let_def alert_def)
  next
    case True
    note w = webhook_process[OF Returns alert_def True, of e h]
    show ?thesis
    proof (cases "extract_stocks_from_alert alert \<noteq> [] \<and> write_succeeds e h")
      case True
      then show ?thesis
        using w assms by (auto simp: process_success is_success_simps run_upload_frame)
    next
      case False
      then obtain msg h2 where "process_chartink_alert e h alert = (error_result msg, h2)"
        "current_iteration h2 = current_iteration h"
        using process_failure[of alert e h] by blast
      then show ?thesis
        using w assms by (auto simp: is_success_simps)
    qed
  qed
qed

text \<open>
  Claim C7. An alert is answered with the success result exactly when extraction yields a
  symbol and no step of the workbook write raises; then the counter grows by one and the
  result carries the number the counter had. Otherwise the result is an error result and
  the counter keeps its value, so the next alert that succeeds is given that same number.
  At the endpoint the counter grows by one exactly for the responses with status 200.
\<close>

theorem counter_moves_on_success_only:
  "(process_chartink_alert e h a = (r, h') \<longrightarrow>
      (is_success r \<longrightarrow>
         extract_stocks_from_alert a \<noteq> [] \<and> write_succeeds e h
         \<and> r = success_result (extract_stocks_from_alert a) (current_iteration h)
         \<and> current_iteration h' = current_iteration h + 1)
      \<and> (\<not> is_success r \<longrightarrow>
         (extract_stocks_from_alert a = [] \<or> \<not> write_succeeds e h)
         \<and> (\<exists>msg. r = error_result msg)
         \<and> current_iteration h' = current_iteration h)
      \<and> (\<not> is_success r \<and> is_success (fst (process_chartink_alert e2 h' a2)) \<longrightarrow>
         fst (process_chartink_alert e2 h' a2) =
           success_result (extract_stocks_from_alert a2) (current_iteration h)))
   \<and> (chartink_webhook e h req = ((body, code), h2) \<longrightarrow>
        current_iteration h2 =
          (if code = 200 then current_iteration h + 1 else current_iteration h))"
proof -
  have ok: "extract_stocks_from_alert x \<noteq> [] \<and> write_succeeds env hd \<Longrightarrow>
      is_success (fst (process_chartink_alert env hd x))
      \<and> fst (process_chartink_alert env hd x) =
          success_result (extract_stocks_from_alert x) (current_iteration hd)
      \<and> current_iteration (snd (process_chartink_alert env hd x)) = current_iteration hd + 1"
    for x and env :: "'a env" and hd
    by (simp add: process_success is_success_simps run_upload_frame)
  have bad: "\<not> (extract_stocks_from_alert x \<noteq> [] \<and> write_succeeds env hd) \<Longrightarrow>
      \<not> is_success (fst (process_chartink_alert env hd x))
      \<and> (\<exists>msg. fst (process_chartink_alert env hd x) = error_result msg)
      \<and> current_iteration (snd (process_chartink_alert env hd x)) = current_iteration hd"
    for x and env :: "'a env" and hd
    using process_failure[of x env hd] by (auto simp: is_success_simps)
  have p: "process_chartink_alert e h a = (r, h') \<longrightarrow>
      (is_success r \<longrightarrow>
         extract_stocks_from_alert a \<noteq> [] \<and> write_succeeds e h
         \<and> r = success_result (extract_stocks_from_alert a) (current_iteration h)
         \<and> current_iteration h' = current_iteration h + 1)
      \<and> (\<not> is_success r \<longrightarrow>
         (extract_stocks_from_alert a = [] \<or> \<not> write_succeeds e h)
         \<and> (\<exists>msg. r = error_result msg)
         \<and> current_iteration h' = current_iteration h)
      \<and> (\<not> is_success r \<and> is_success (fst (process_chartink_alert e2 h' a2)) \<longrightarrow>
         fst (process_chartink_alert e2 h' a2) =
           success_result (extract_stocks_from_alert a2) (current_iteration h))"
  proof
    assume eq: "process_chartink_alert e h a = (r, h')"
    have r: "r = fst (process_chartink_alert e h a)" "h' = snd (process_chartink_alert e h a)"
      using eq by simp_all
    show "(is_success r \<longrightarrow>
         extract_stocks_from_alert a \<noteq> [] \<and> write_succeeds e h
         \<and> r = success_result (extract_stocks_from_alert a) (current_iteration h)
         \<and> current_iteration h' = current_iteration h + 1)
      \<and> (\<not> is_success r \<longrightarrow>
         (extract_stocks_from_alert a = [] \<or> \<not> write_succeeds e h)
         \<and> (\<exists>msg. r = error_result msg)
         \<and> current_iteration h' = current_iteration h)
      \<and> (\<not> is_success r \<and> is_success (fst (process_chartink_alert e2 h' a2)) \<longrightarrow>
         fst (process_chartink_alert e2 h' a2) =
           success_result (extract_stocks_from_alert a2) (current_iteration h))"
      unfolding r
      using ok[of a e h] bad[of a e h] ok[of a2 e2 "snd (process_chartink_alert e h a)"]
        bad[of a2 e2 "snd (process_chartink_alert e h a)"]
      by metis
  qed
  show ?thesis
    using p webhook_counter[of e h req body code h2] by blast
qed

theorem counter_moves_on_success_only_witness:
  "current_iteration (snd (process_chartink_alert drive_down (init_handler Missing True True (Returns ()))
       (JObj [(''stocks'', JStr ''TCS'')]))) = current_iteration (init_handler Missing True True (Returns ()) :: real handler) + 1
   \<and> current_iteration (snd (process_chartink_alert drive_down (init_handler Missing True True (Returns ()))
       (JObj [(''scan_name'', JStr ''breakout'')]))) = current_iteration (init_handler Missing True True (Returns ()) :: real handler)"
proof -
  let ?h = "init_handler Missing True True (Returns ()) :: real handler"
  let ?a = "JObj [(''stocks'', JStr ''TCS'')] :: real json"
  let ?b = "JObj [(''scan_name'', JStr ''breakout'')] :: real json"
  have s: "is_success (fst (process_chartink_alert drive_down ?h ?a))"
    by (simp add: process_success tcs_alert drive_down_writes is_success_simps)
  have "extract_stocks_from_alert ?b = []"
    by (simp add: extract_stocks_from_alert_def dict_get_def)
  then have f: "\<not> is_success (fst (process_chartink_alert drive_down ?h ?b))"
    by (simp add: process_chartink_alert_def is_success_simps)
  have pa: "process_chartink_alert drive_down ?h ?a =
      (fst (process_chartink_alert drive_down ?h ?a), snd (process_chartink_alert drive_down ?h ?a))"
    and pb: "process_chartink_alert drive_down ?h ?b =
      (fst (process_chartink_alert drive_down ?h ?b), snd (process_chartink_alert drive_down ?h ?b))"
    by simp_all
  from counter_moves_on_success_only[where e = drive_down and h = ?h and a = ?a
      and r = "fst (process_chartink_alert drive_down ?h ?a)"
      and h' = "snd (process_chartink_alert drive_down ?h ?a)", THEN conjunct1] pa s
  have 1: "current_iteration (snd (process_chartink_alert drive_down ?h ?a)) = current_iteration ?h + 1"
    by blast
  from counter_moves_on_success_only[where e = drive_down and h = ?h and a = ?b
      and r = "fst (process_chartink_alert drive_down ?h ?b)"
      and h' = "snd (process_chartink_alert drive_down ?h ?b)", THEN conjunct1] pb f
  have 2: "current_iteration (snd (process_chartink_alert drive_down ?h ?b)) = current_iteration ?h"
    by blast
  from 1 2 show ?thesis by blast
qed

section \<open>Upload failures\<close>

lemma upload_file_error:
  assumes "service d" "upload_error e = Some m"
  shows "fst (upload_file e d) = None
         \<and> snd (snd (upload_file e d)) \<noteq> []
         \<and> last (snd (snd (upload_file e d))) = ''Error uploading to Google Drive: '' @ m"
  using assms
  by (auto simp: upload_file_def upload_error_def Let_def
        split: outcome.splits list.splits prod.splits if_splits)

lemma folder_error:
  assumes "service d"
    and "folders_list e = Raises m \<or> (folders_list e = Returns [] \<and> folders_create e = Raises m)"
  shows "create_or_get_folder e d = (None, d, [''Error creating/getting folder: '' @ m])"
  using assms by (auto simp: create_or_get_folder_def)

lemma run_upload_console:
  assumes "drive_handler h = Some d" "use_google_drive h" "service d"
  shows "console (run_upload e h) = console h @ snd (snd (upload_file e d))"
  using assms by (simp add: run_upload_def split: prod.split)

lemma run_upload_skip:
  assumes "\<not> use_google_drive h \<or> drive_handler h = None \<or> (\<exists>d. drive_handler h = Some d \<and> \<not> service d)"
  shows "run_upload e h = h"
  using assms by (auto simp: run_upload_def split: option.split)

lemma webhook_json_success:
  assumes "get_json req = Returns (Some a)" "truthy a"
    "extract_stocks_from_alert a \<noteq> []" "write_succeeds e h"
  shows "fst (chartink_webhook e h req) =
           (success_result (extract_stocks_from_alert a) (current_iteration h), 200)"
    and "console (snd (chartink_webhook e h req)) = console (run_upload e h)"
    and "current_iteration (snd (chartink_webhook e h req)) = current_iteration h + 1"
proof -
  have w: "chartink_webhook e h req =
           ((fst (process_chartink_alert e h a),
             if is_success (fst (process_chartink_alert e h a)) then 200 else 400),
            snd (process_chartink_alert e h a))"
    by (rule webhook_process[OF assms(1)]) (simp_all add: assms(2))
  show "fst (chartink_webhook e h req) =
           (success_result (extract_stocks_from_alert a) (current_iteration h), 200)"
    unfolding w by (simp add: process_success assms is_success_simps)
  show "current_iteration (snd (chartink_webhook e h req)) = current_iteration h + 1"
    unfolding w by (simp add: process_success assms run_upload_frame)
  show "console (snd (chartink_webhook e h req)) = console (run_upload e h)"
    unfolding w
    by (simp add: process_success assms run_upload_def split: option.split prod.split)
qed

text \<open>
  Claim C8, as amended. When the workbook write succeeds, the endpoint answers with HTTP 200
  and the success result (the accepted symbols and the number the counter had), whatever
  the Drive calls do. An exception raised by a call of \<open>upload_file\<close> itself is caught:
  \<open>upload_file\<close> returns \<open>None\<close> and its last printed line carries the message, which is
  then the last line on the console. An exception while finding or creating the folder is
  caught and printed by \<open>create_or_get_folder\<close>, which returns \<open>None\<close>. Without a
  service the upload is not attempted and nothing changes; that the service is missing was
  printed when the Drive handler was initialised.
\<close>

theorem upload_failure_contained:
  "(get_json req = Returns (Some a) \<and> truthy a \<and> extract_stocks_from_alert a \<noteq> []
      \<and> write_succeeds e h \<longrightarrow>
      fst (chartink_webhook e h req) =
        (success_result (extract_stocks_from_alert a) (current_iteration h), 200)
      \<and> (\<forall>d m. drive_handler h = Some d \<and> use_google_drive h \<and> service d
             \<and> upload_error e = Some m \<longrightarrow>
           last (console (snd (chartink_webhook e h req))) =
             ''Error uploading to Google Drive: '' @ m))
   \<and> (service d \<and> upload_error e = Some m \<longrightarrow>
        fst (upload_file e d) = None
        \<and> last (snd (snd (upload_file e d))) = ''Error uploading to Google Drive: '' @ m)
   \<and> (service d \<and> (folders_list e = Raises m
          \<or> (folders_list e = Returns [] \<and> folders_create e = Raises m)) \<longrightarrow>
        create_or_get_folder e d = (None, d, [''Error creating/getting folder: '' @ m]))
   \<and> (\<not> service d \<longrightarrow> upload_file e d = (None, d, []))
   \<and> (\<not> use_google_drive h \<or> drive_handler h = None
          \<or> (\<exists>d. drive_handler h = Some d \<and> \<not> service d) \<longrightarrow> run_upload e h = h)
   \<and> (\<not> fst (initialize_drive creds build) \<longrightarrow> snd (initialize_drive creds build) \<noteq> [])"
proof -
  have a: "get_json req = Returns (Some a) \<and> truthy a \<and> extract_stocks_from_alert a \<noteq> []
      \<and> write_succeeds e h \<longrightarrow>
      fst (chartink_webhook e h req) =
        (success_result (extract_stocks_from_alert a) (current_iteration h), 200)
      \<and> (\<forall>d m. drive_handler h = Some d \<and> use_google_drive h \<and> service d
             \<and> upload_error e = Some m \<longrightarrow>
           last (console (snd (chartink_webhook e h req))) =
             ''Error uploading to Google Drive: '' @ m)"
  proof (intro impI conjI allI)
    assume h: "get_json req = Returns (Some a) \<and> truthy a \<and> extract_stocks_from_alert a \<noteq> []
      \<and> write_succeeds e h"
    then show "fst (chartink_webhook e h req) =
        (success_result (extract_stocks_from_alert a) (current_iteration h), 200)"
      using webhook_json_success(1) by blast
    fix d m
    assume u: "drive_handler h = Some d \<and> use_google_drive h \<and> service d \<and> upload_error e = Some m"
    have "console (snd (chartink_webhook e h req)) = console h @ snd (snd (upload_file e d))"
      using h u webhook_json_success(2)[of req a e h] run_upload_console[of h d e] by simp
    then show "last (console (snd (chartink_webhook e h req))) =
             ''Error uploading to Google Drive: '' @ m"
      using upload_file_error[of d e m] u by simp
  qed
  have b: "service d \<and> upload_error e = Some m \<longrightarrow>
        fst (upload_file e d) = None
        \<and> last (snd (snd (upload_file e d))) = ''Error uploading to Google Drive: '' @ m"
    using upload_file_error[of d e m] by blast
  have c: "service d \<and> (folders_list e = Raises m
          \<or> (folders_list e = Returns [] \<and> folders_create e = Raises m)) \<longrightarrow>
        create_or_get_folder e d = (None, d, [''Error creating/getting folder: '' @ m])"
    using folder_error[of d e m] by blast
  have d: "\<not> service d \<longrightarrow> upload_file e d = (None, d, [])"
    by (simp add: upload_file_def)
  have e: "\<not> use_google_drive h \<or> drive_handler h = None
          \<or> (\<exists>d. drive_handler h = Some d \<and> \<not> service d) \<longrightarrow> run_upload e h = h"
    using run_upload_skip[of h e] by blast
  have f: "\<not> fst (initialize_drive creds build) \<longrightarrow> snd (initialize_drive creds build) \<noteq> []"
    by (simp add: initialize_drive_def split: outcome.split)
  show ?thesis
    using a b c d e f by blast
qed

theorem upload_failure_contained_witness:
  "fst (chartink_webhook drive_down (init_handler Missing True True (Returns ()))
          \<lparr> get_json = Returns (Some (JObj [(''stocks'', JStr ''TCS'')])), form = [] \<rparr>) =
     (success_result [''TCS''] 1, 200)
   \<and> last (console (snd (chartink_webhook drive_down (init_handler Missing True True (Returns ()))
          \<lparr> get_json = Returns (Some (JObj [(''stocks'', JStr ''TCS'')])), form = [] \<rparr>))) =
     ''Error uploading to Google Drive: timeout''"
proof -
  let ?h = "init_handler Missing True True (Returns ()) :: real handler"
  let ?a = "JObj [(''stocks'', JStr ''TCS'')] :: real json"
  let ?req = "\<lparr> get_json = Returns (Some ?a), form = [] \<rparr>"
  let ?d = "\<lparr> service = True, folder_id = None \<rparr>"
  have h1: "get_json ?req = Returns (Some ?a) \<and> truthy ?a \<and> extract_stocks_from_alert ?a \<noteq> []
      \<and> write_succeeds drive_down ?h"
    by (simp add: tcs_alert drive_down_writes)
  have h2: "drive_handler ?h = Some ?d \<and> use_google_drive ?h \<and> service ?d
      \<and> upload_error drive_down = Some ''timeout''"
    by (simp add: init_handler_def initialize_drive_def upload_error_def drive_down_def)
  have i: "current_iteration ?h = 1"
    by (simp add: init_handler_def get_next_iteration_number_def)
  from upload_failure_contained[where req = ?req and a = ?a and e = drive_down and h = ?h,
      THEN conjunct1] h1 h2
  have "fst (chartink_webhook drive_down ?h ?req) =
        (success_result (extract_stocks_from_alert ?a) (current_iteration ?h), 200)
      \<and> last (console (snd (chartink_webhook drive_down ?h ?req))) =
             ''Error uploading to Google Drive: '' @ ''timeout''"
    by blast
  then show ?thesis
    by (simp add: tcs_alert i)
qed

text \<open>
  Claim C8 as it was stated says that the upload is skipped after a folder resolution
  error. \<open>upload_file\<close> does not look at what \<open>create_or_get_folder\<close> returned: with the
  folder lookup raising and the file calls going through, the file is created (without a
  parent folder) and its id is returned.
\<close>

theorem folder_error_upload_counterexample:
  "upload_file folder_down \<lparr> service = True, folder_id = None \<rparr> =
     (Some ''file-1'', \<lparr> service = True, folder_id = None \<rparr>,
      [''Error creating/getting folder: timeout'', ''Uploaded new file to Google Drive''])"
  by (simp add: upload_file_def create_or_get_folder_def folder_down_def drive_down_def)

section \<open>Trigger prices\<close>

lemma rows_loop_map:
  "rows_loop e a n tp i stocks acc =
     acc @ map (\<lambda>(j, stock). make_row e a n tp j stock) (enumerate i stocks)"
  by (induction stocks arbitrary: i acc) (simp_all add: make_row_def Let_def)

lemma rows_loop_length: "length (rows_loop e a n tp i stocks acc) = length acc + length stocks"
  by (simp add: rows_loop_map)

lemma rows_loop_nth:
  assumes "k < length stocks"
  shows "rows_loop e a n tp i stocks [] ! k = make_row e a n tp (i + k) (stocks ! k)"
  using assms by (simp add: rows_loop_map nth_enumerate_eq)

lemma those_map_Some:
  "those (map f xs) = (if \<forall>x \<in> set xs. f x \<noteq> None then Some (map (\<lambda>x. the (f x)) xs) else None)"
  by (induction xs) (auto split: option.splits)

lemma parse_trigger_prices_str:
  assumes "dict_get a ''trigger_prices'' = Some (JStr s)"
  shows "parse_trigger_prices e a =
           (if \<forall>p \<in> set (split_on CHR '','' s). parse_float e (strip p) \<noteq> None
            then map (\<lambda>p. the (parse_float e (strip p))) (split_on CHR '','' s)
            else [])"
  using assms by (auto simp: parse_trigger_prices_def those_map_Some)

lemma example_stocks: "extract_stocks_from_alert (JObj example_alert) = [''TCS'', ''INFY'']"
  by (simp add: example_alert_def extract_stocks_from_alert_def dict_get_def clean_stock_def
        strip_def is_space_def upper_def upper_char_def)

lemma example_prices:
  assumes "parse_float e ''3500'' = Some x" "parse_float e ''1500'' = Some y"
  shows "parse_trigger_prices e example_alert = [x, y]"
  using assms
  by (simp add: parse_trigger_prices_def example_alert_def dict_get_def strip_def is_space_def)

text \<open>
  Claim C3. The rows built for an alert are as many as the cleaned symbols and keep their
  order; the row of the symbol at index \<open>i\<close> (position \<open>i + 1\<close>) has the entry at index
  \<open>i\<close> of the parsed trigger-price list as its trigger price if the list is that long,
  and the integer 0 otherwise, whatever the two lengths are. For a \<open>trigger_prices\<close>
  string the parsed list holds \<open>float\<close> of every comma-separated piece, or is empty when
  a piece does not parse. These rows, under the header, are the sheet that a successful
  write stores (a 0 beside parsed prices is stored as the float 0.0). The payload \<open>{"stocks": "NSE:TCS, INFY.NS", "trigger_prices": "3500,1500"}\<close>
  gives the symbols \<open>TCS\<close>, \<open>INFY\<close> with the prices \<open>float("3500")\<close>,
  \<open>float("1500")\<close>.
\<close>

theorem trigger_price_by_position:
  "length (rows_loop e a n (parse_trigger_prices e a) 1 stocks []) = length stocks
   \<and> (\<forall>i < length stocks.
        Stock_Symbol (rows_loop e a n (parse_trigger_prices e a) 1 stocks [] ! i) = stocks ! i
        \<and> Sr_No (rows_loop e a n (parse_trigger_prices e a) 1 stocks [] ! i) = int i + 1
        \<and> Trigger_Price (rows_loop e a n (parse_trigger_prices e a) 1 stocks [] ! i) =
            (if i < length (parse_trigger_prices e a)
             then JFloat (parse_trigger_prices e a ! i) else JInt 0))
   \<and> (dict_get a ''trigger_prices'' = Some (JStr s) \<longrightarrow>
        parse_trigger_prices e a =
          (if \<forall>p \<in> set (split_on CHR '','' s). parse_float e (strip p) \<noteq> None
           then map (\<lambda>p. the (parse_float e (strip p))) (split_on CHR '','' s)
           else []))
   \<and> (extract_stocks_from_alert (JObj a) \<noteq> [] \<and> write_succeeds e h \<longrightarrow>
        excel_file (snd (process_chartink_alert e h (JObj a))) =
          Workbook (replace_iteration_sheet (sheet_name_of (current_iteration h))
            (sheet_rows e (rows_loop e a (current_iteration h) (parse_trigger_prices e a) 1
                             (extract_stocks_from_alert (JObj a)) []))
            (loaded (excel_file h))))
   \<and> extract_stocks_from_alert (JObj example_alert :: 'f json) = [''TCS'', ''INFY'']
   \<and> (parse_float e ''3500'' = Some x \<and> parse_float e ''1500'' = Some y \<longrightarrow>
        map Trigger_Price
          (rows_loop e example_alert n (parse_trigger_prices e example_alert) 1
             (extract_stocks_from_alert (JObj example_alert :: 'f json)) []) =
        [JFloat x, JFloat y])"
proof -
  have a: "\<forall>i < length stocks.
        Stock_Symbol (rows_loop e a n (parse_trigger_prices e a) 1 stocks [] ! i) = stocks ! i
        \<and> Sr_No (rows_loop e a n (parse_trigger_prices e a) 1 stocks [] ! i) = int i + 1
        \<and> Trigger_Price (rows_loop e a n (parse_trigger_prices e a) 1 stocks [] ! i) =
            (if i < length (parse_trigger_prices e a)
             then JFloat (parse_trigger_prices e a ! i) else JInt 0)"
    by (simp add: rows_loop_nth make_row_def)
  have b: "dict_get a ''trigger_prices'' = Some (JStr s) \<longrightarrow>
        parse_trigger_prices e a =
          (if \<forall>p \<in> set (split_on CHR '','' s). parse_float e (strip p) \<noteq> None
           then map (\<lambda>p. the (parse_float e (strip p))) (split_on CHR '','' s)
           else [])"
    using parse_trigger_prices_str[of a s e] by blast
  have c: "extract_stocks_from_alert (JObj a) \<noteq> [] \<and> write_succeeds e h \<longrightarrow>
        excel_file (snd (process_chartink_alert e h (JObj a))) =
          Workbook (replace_iteration_sheet (sheet_name_of (current_iteration h))
            (sheet_rows e (rows_loop e a (current_iteration h) (parse_trigger_prices e a) 1
                             (extract_stocks_from_alert (JObj a)) []))
            (loaded (excel_file h)))"
    by (simp add: process_success run_upload_frame Let_def)
  have d: "parse_float e ''3500'' = Some x \<and> parse_float e ''1500'' = Some y \<longrightarrow>
        map Trigger_Price
          (rows_loop e example_alert n (parse_trigger_prices e example_alert) 1
             (extract_stocks_from_alert (JObj example_alert :: 'f json)) []) =
        [JFloat x, JFloat y]"
    by (simp add: example_stocks example_prices)
  show ?thesis
    using a b c d example_stocks rows_loop_length[of e a n "parse_trigger_prices e a" 1 stocks "[]"]
    by simp
qed

theorem trigger_price_by_position_witness:
  "map Trigger_Price
     (rows_loop drive_down example_alert 1 (parse_trigger_prices drive_down example_alert) 1
        (extract_stocks_from_alert (JObj example_alert :: real json)) []) =
     [JFloat 3500, JFloat 1500]"
proof -
  have "parse_float drive_down ''3500'' = Some 3500 \<and> parse_float drive_down ''1500'' = Some 1500"
    by (simp add: drive_down_def)
  with trigger_price_by_position[where e = drive_down and x = 3500 and y = 1500 and n = 1]
  show ?thesis by blast
qed

section \<open>The normalizer\<close>

lemma clean_loop_eq:
  "clean_loop vs acc = acc @ filter accepted (map clean_stock (string_entries vs))"
proof (induction vs acc rule: clean_loop.induct)
  case (1 cleaned_stocks)
  then show ?case by (simp add: string_entries_def List.map_filter_simps)
next
  case (2 stock rest cleaned_stocks)
  then show ?case
    by (simp add: string_entries_def List.map_filter_simps accepted_def Let_def)
qed (simp_all add: string_entries_def List.map_filter_simps)


lemma string_entries_map: "string_entries (map (\<lambda>p. JStr (f p)) xs) = map f xs"
  by (induction xs) (simp_all add: string_entries_def List.map_filter_simps)




lemma split_on_nonempty: "split_on sep s \<noteq> []"
  by (induction s) (auto split: list.splits)





lemma extract_obj:
  "dict_get kvs ''stocks'' = Some (JObj m) \<Longrightarrow>
   extract_stocks_from_alert (JObj kvs) = filter accepted (map clean_stock (map fst m))"
  by (simp add: extract_stocks_from_alert_def clean_loop_eq string_entries_map)

lemma extract_not_iterable:
  "dict_get kvs ''stocks'' = Some v \<Longrightarrow> py_iter v = None \<Longrightarrow>
   extract_stocks_from_alert (JObj kvs) = []"
  by (cases v) (simp_all add: extract_stocks_from_alert_def)

lemma extract_no_field:
  "dict_get kvs ''stocks'' = None \<Longrightarrow> extract_stocks_from_alert (JObj kvs) = []"
  by (simp add: extract_stocks_from_alert_def)

lemma extract_not_dict:
  "\<forall>kvs. a \<noteq> JObj kvs \<Longrightarrow> extract_stocks_from_alert a = []"
  by (cases a) (simp_all add: extract_stocks_from_alert_def)




lemma upper_char_idem: "upper_char (upper_char c) = upper_char c"
  by (simp add: upper_char_def split: option.splits if_splits)


lemma upper_stable: "upper (upper s) = upper s"
  by (simp add: upper_def upper_char_idem)








lemma py_iter_None: "py_iter v = None \<longleftrightarrow> v = JNull \<or> (\<exists>b. v = JBool b) \<or> (\<exists>n. v = JInt n) \<or> (\<exists>x. v = JFloat x)"
  by (cases v) simp_all

lemma webhook_no_stocks:
  assumes "get_json req = Returns (Some a)" "truthy a" "extract_stocks_from_alert a = []"
  shows "chartink_webhook e h req = ((error_result ''No stocks found in alert'', 400), h)"
proof -
  have "chartink_webhook e h req =
           ((fst (process_chartink_alert e h a),
             if is_success (fst (process_chartink_alert e h a)) then 200 else 400),
            snd (process_chartink_alert e h a))"
    by (rule webhook_process[OF assms(1)]) (simp_all add: assms(2))
  then show ?thesis
    by (simp add: process_chartink_alert_def assms(3) is_success_simps)
qed

text \<open>
  Claim C4, as amended. The normalizer returns no symbol for a payload that is not a
  \<open>dict\<close>, for one without a \<open>stocks\<close> field, and for one whose \<open>stocks\<close> field is
  \<open>null\<close>, a boolean or a number (looping over such a value raises, and the exception is
  caught). A \<open>stocks\<close> field that is a mapping is looped over as Python loops over a
  \<open>dict\<close>: its keys are cleaned like the entries of a list. Whenever no symbol is
  returned, the alert is answered with the error result \<open>No stocks found in alert\<close>, HTTP
  400 at the endpoint, and the handler is left as it was.
\<close>

theorem no_stocks_found:
  "((\<forall>kvs. a \<noteq> JObj kvs) \<longrightarrow> extract_stocks_from_alert a = [])
   \<and> (dict_get kvs ''stocks'' = None \<longrightarrow> extract_stocks_from_alert (JObj kvs) = [])
   \<and> (dict_get kvs ''stocks'' = Some v
        \<and> (v = JNull \<or> (\<exists>b. v = JBool b) \<or> (\<exists>n. v = JInt n) \<or> (\<exists>x. v = JFloat x)) \<longrightarrow>
        extract_stocks_from_alert (JObj kvs) = [])
   \<and> (dict_get kvs ''stocks'' = Some (JObj m) \<longrightarrow>
        extract_stocks_from_alert (JObj kvs) = filter accepted (map clean_stock (map fst m)))
   \<and> (extract_stocks_from_alert a = [] \<longrightarrow>
        process_chartink_alert e h a = (error_result ''No stocks found in alert'', h))
   \<and> (get_json req = Returns (Some a) \<and> truthy a \<and> extract_stocks_from_alert a = [] \<longrightarrow>
        chartink_webhook e h req =
          ((JObj [(''status'', JStr ''error''), (''message'', JStr ''No stocks found in alert'')],
            400), h))"
proof -
  have a: "(\<forall>kvs. a \<noteq> JObj kvs) \<longrightarrow> extract_stocks_from_alert a = []"
    using extract_not_dict[of a] by blast
  have b: "dict_get kvs ''stocks'' = None \<longrightarrow> extract_stocks_from_alert (JObj kvs) = []"
    using extract_no_field[of kvs] by blast
  have c: "dict_get kvs ''stocks'' = Some v
        \<and> (v = JNull \<or> (\<exists>b. v = JBool b) \<or> (\<exists>n. v = JInt n) \<or> (\<exists>x. v = JFloat x)) \<longrightarrow>
        extract_stocks_from_alert (JObj kvs) = []"
    using extract_not_iterable[of kvs v] py_iter_None[of v] by auto
  have d: "dict_get kvs ''stocks'' = Some (JObj m) \<longrightarrow>
        extract_stocks_from_alert (JObj kvs) = filter accepted (map clean_stock (map fst m))"
    using extract_obj[of kvs m] by blast
  have e: "extract_stocks_from_alert a = [] \<longrightarrow>
        process_chartink_alert e h a = (error_result ''No stocks found in alert'', h)"
    by (simp add: process_chartink_alert_def)
  have f: "get_json req = Returns (Some a) \<and> truthy a \<and> extract_stocks_from_alert a = [] \<longrightarrow>
        chartink_webhook e h req =
          ((JObj [(''status'', JStr ''error''), (''message'', JStr ''No stocks found in alert'')],
            400), h)"
    using webhook_no_stocks[of req a e h] by (simp add: error_result_def)
  show ?thesis
    using a b c d e f by blast
qed

theorem no_stocks_found_witness:
  "chartink_webhook drive_down (init_handler Missing True True (Returns ()))
      \<lparr> get_json = Returns (Some (JObj [(''stocks'', JInt 42)])), form = [] \<rparr> =
     ((JObj [(''status'', JStr ''error''), (''message'', JStr ''No stocks found in alert'')], 400),
      init_handler Missing True True (Returns ()))
   \<and> extract_stocks_from_alert (JObj [(''scan_name'', JStr ''breakout'')] :: real json) = []"
proof -
  let ?a = "JObj [(''stocks'', JInt 42)] :: real json"
  let ?req = "\<lparr> get_json = Returns (Some ?a), form = [] \<rparr>"
  let ?h = "init_handler Missing True True (Returns ()) :: real handler"
  have h1: "dict_get [(''stocks'', JInt 42 :: real json)] ''stocks'' = Some (JInt 42)
      \<and> (JInt 42 = (JNull :: real json) \<or> (\<exists>b. JInt 42 = (JBool b :: real json))
          \<or> (\<exists>n. JInt 42 = (JInt n :: real json)) \<or> (\<exists>x. JInt 42 = (JFloat x :: real json)))"
    by (simp add: dict_get_def)
  from no_stocks_found[where kvs = "[(''stocks'', JInt 42 :: real json)]" and v = "JInt 42",
      THEN conjunct2, THEN conjunct2, THEN conjunct1] h1
  have x: "extract_stocks_from_alert ?a = []"
    by blast
  have h2: "get_json ?req = Returns (Some ?a) \<and> truthy ?a"
    by simp
  from no_stocks_found[where a = ?a and req = ?req and e = drive_down and h = ?h,
      THEN conjunct2, THEN conjunct2, THEN conjunct2, THEN conjunct2, THEN conjunct2] h2 x
  have 1: "chartink_webhook drive_down ?h ?req =
          ((JObj [(''status'', JStr ''error''), (''message'', JStr ''No stocks found in alert'')],
            400), ?h)"
    by blast
  have "dict_get [(''scan_name'', JStr ''breakout'' :: real json)] ''stocks'' = None"
    by (simp add: dict_get_def)
  with no_stocks_found[where kvs = "[(''scan_name'', JStr ''breakout'' :: real json)]",
      THEN conjunct2, THEN conjunct1]
  have 2: "extract_stocks_from_alert (JObj [(''scan_name'', JStr ''breakout'')] :: real json) = []"
    by blast
  from 1 2 show ?thesis by blast
qed

text \<open>
  Claim C4 as it was stated names a mapping among the shapes that give no symbol. The payload
  \<open>{"stocks": {"TCS": 1}}\<close> gives the symbol \<open>TCS\<close>.
\<close>

theorem mapping_keys_counterexample:
  "extract_stocks_from_alert (JObj [(''stocks'', JObj [(''TCS'', JInt 1)])] :: real json) =
     [''TCS'']"
  by (simp add: extract_stocks_from_alert_def dict_get_def clean_stock_def strip_def
        is_space_def upper_def upper_char_def)



section \<open>Replacing an iteration sheet\<close>

lemma remove_sheet_filter:
  "distinct (map fst wb) \<Longrightarrow> remove_sheet name wb = filter (\<lambda>sh. fst sh \<noteq> name) wb"
proof (induction wb)
  case Nil
  then show ?case by simp
next
  case (Cons sh wb)
  show ?case
  proof (cases "fst sh = name")
    case True
    with Cons.prems have "name \<notin> fst ` set wb" by simp
    then have "\<forall>x \<in> set wb. fst x \<noteq> name" by (metis imageI)
    then have "filter (\<lambda>sh. fst sh \<noteq> name) wb = wb" by (simp add: filter_id_conv)
    with True show ?thesis by simp
  next
    case False
    with Cons show ?thesis by simp
  qed
qed

lemma titles_distinct_fst: "titles_distinct wb \<Longrightarrow> distinct (map fst wb)"
  by (simp add: titles_distinct_def sheetnames_def distinct_map del: map_map)

lemma without_sheet:
  assumes "titles_distinct wb"
  shows "(if name \<in> set (sheetnames wb) then remove_sheet name wb else wb) =
           filter (\<lambda>sh. fst sh \<noteq> name) wb"
proof (cases "name \<in> set (sheetnames wb)")
  case True
  then show ?thesis
    using assms by (simp add: remove_sheet_filter titles_distinct_fst)
next
  case False
  then have "\<forall>x \<in> set wb. fst x \<noteq> name"
    by (auto simp: sheetnames_def)
  then have "filter (\<lambda>sh. fst sh \<noteq> name) wb = wb" by (simp add: filter_id_conv)
  with False show ?thesis by simp
qed

lemma avoid_duplicate_name_fresh:
  "\<not> list_ex (\<lambda>n. lower n = lower title) names \<Longrightarrow> avoid_duplicate_name names title = title"
  by (simp add: avoid_duplicate_name_def)

lemma replace_frame:
  assumes "titles_distinct wb"
  shows "butlast (replace_iteration_sheet name rows wb) = filter (\<lambda>sh. fst sh \<noteq> name) wb"
    and "snd (last (replace_iteration_sheet name rows wb)) = rows"
  using without_sheet[OF assms, of name]
  by (simp_all add: replace_iteration_sheet_def create_sheet_def)

lemma replace_exact:
  assumes "titles_distinct wb" "\<not> case_variant name wb"
  shows "replace_iteration_sheet name rows wb = filter (\<lambda>sh. fst sh \<noteq> name) wb @ [(name, rows)]"
proof -
  have "\<not> list_ex (\<lambda>n. lower n = lower name) (sheetnames (filter (\<lambda>sh. fst sh \<noteq> name) wb))"
    using assms(2) by (auto simp: case_variant_def list_ex_iff sheetnames_def)
  then show ?thesis
    using without_sheet[OF assms(1), of name]
    by (simp add: replace_iteration_sheet_def create_sheet_def avoid_duplicate_name_fresh)
qed

lemma count_one:
  "count_list (sheetnames (filter (\<lambda>sh. fst sh \<noteq> name) wb @ [(name, rows)])) name = 1"
proof -
  have "name \<notin> set (sheetnames (filter (\<lambda>sh. fst sh \<noteq> name) wb))"
    by (auto simp: sheetnames_def)
  then have "count_list (sheetnames (filter (\<lambda>sh. fst sh \<noteq> name) wb)) name = 0"
    by (simp add: count_list_0_iff)
  then show ?thesis
    by (simp add: sheetnames_def)
qed


lemma process_keeps_file:
  assumes "excel_file h = Workbook wb" "extract_stocks_from_alert a = [] \<or> \<not> write_succeeds e h"
  shows "excel_file (snd (process_chartink_alert e h a)) = Workbook wb"
  using process_failure[OF assms(2)] assms(1) by auto

lemma renamed_title:
  "avoid_duplicate_name [''Master_List'', ''ITERATION_1''] ''Iteration_1'' = ''Iteration_11''"
  by code_simp

text \<open>
  What writing the sheet of one iteration keeps, in a workbook whose titles are distinct:
  every sheet of another name stays as it is and in its place, the sheet of that name is
  taken out if there is one, and the sheet with the new rows is put last. If no other title
  differs from the name only in letter case, the new sheet has exactly that name and is the
  only one of that name. An alert that is written stores the workbook so obtained from the
  one loaded or created; an alert that is not written leaves a stored workbook as it is.
\<close>

lemma iteration_sheet_replaced:
  "(titles_distinct wb \<longrightarrow>
      butlast (replace_iteration_sheet name rows wb) = filter (\<lambda>sh. fst sh \<noteq> name) wb
      \<and> snd (last (replace_iteration_sheet name rows wb)) = rows)
   \<and> (titles_distinct wb \<and> \<not> case_variant name wb \<longrightarrow>
      replace_iteration_sheet name rows wb = filter (\<lambda>sh. fst sh \<noteq> name) wb @ [(name, rows)]
      \<and> count_list (sheetnames (replace_iteration_sheet name rows wb)) name = 1)
   \<and> (extract_stocks_from_alert a \<noteq> [] \<and> write_succeeds e h \<longrightarrow>
      (\<exists>new_rows. excel_file (snd (process_chartink_alert e h a)) =
         Workbook (replace_iteration_sheet (sheet_name_of (current_iteration h)) new_rows
                     (loaded (excel_file h)))))
   \<and> (excel_file h = Workbook wb
        \<and> (extract_stocks_from_alert a = [] \<or> \<not> write_succeeds e h) \<longrightarrow>
      excel_file (snd (process_chartink_alert e h a)) = Workbook wb)"
proof -
  have a: "titles_distinct wb \<longrightarrow>
      butlast (replace_iteration_sheet name rows wb) = filter (\<lambda>sh. fst sh \<noteq> name) wb
      \<and> snd (last (replace_iteration_sheet name rows wb)) = rows"
    using replace_frame[of wb name rows] by blast
  have b: "titles_distinct wb \<and> \<not> case_variant name wb \<longrightarrow>
      replace_iteration_sheet name rows wb = filter (\<lambda>sh. fst sh \<noteq> name) wb @ [(name, rows)]
      \<and> count_list (sheetnames (replace_iteration_sheet name rows wb)) name = 1"
    using replace_exact[of wb name rows] count_one[of name wb rows] by auto
  have c: "extract_stocks_from_alert a \<noteq> [] \<and> write_succeeds e h \<longrightarrow>
      (\<exists>new_rows. excel_file (snd (process_chartink_alert e h a)) =
         Workbook (replace_iteration_sheet (sheet_name_of (current_iteration h)) new_rows
                     (loaded (excel_file h))))"
    by (auto simp: process_success run_upload_frame)
  have d: "excel_file h = Workbook wb
        \<and> (extract_stocks_from_alert a = [] \<or> \<not> write_succeeds e h) \<longrightarrow>
      excel_file (snd (process_chartink_alert e h a)) = Workbook wb"
    using process_keeps_file[of h wb a e] by blast
  show ?thesis
    using a b c d by blast
qed

lemma iteration_sheet_replaced_example:
  "replace_iteration_sheet ''Iteration_1'' [[JStr ''new'']]
     [(''Master_List'', []), (''Iteration_1'', [[JStr ''old'']]), (''Iteration_2'', [])] =
     [(''Master_List'', []), (''Iteration_2'', []), (''Iteration_1'', [[JStr ''new'' :: real json]])]"
proof -
  let ?wb = "[(''Master_List'', []), (''Iteration_1'', [[JStr ''old'']]), (''Iteration_2'', [])]
               :: real sheet list"
  have "titles_distinct ?wb \<and> \<not> case_variant ''Iteration_1'' ?wb"
    by (simp add: titles_distinct_def case_variant_def sheetnames_def lower_def lower_char_def)
  with iteration_sheet_replaced[where wb = ?wb and name = "''Iteration_1''"
      and rows = "[[JStr ''new'']]", THEN conjunct2, THEN conjunct1]
  have "replace_iteration_sheet ''Iteration_1'' [[JStr ''new'']] ?wb =
          filter (\<lambda>sh. fst sh \<noteq> ''Iteration_1'') ?wb @ [(''Iteration_1'', [[JStr ''new'']])]"
    by blast
  also have "\<dots> = [(''Master_List'', []), (''Iteration_2'', []), (''Iteration_1'', [[JStr ''new'']])]"
    by simp
  finally show ?thesis .
qed

text \<open>
  Claim C6 says that after the alert of iteration \<open>N\<close> is written there is exactly one
  sheet \<open>Iteration_N\<close>, and no other sheet is changed. The handler removes the sheet of
  exactly that name and then asks for a new sheet of that title, but the library compares
  titles without regard to letter case. In a workbook with a sheet \<open>ITERATION_1\<close> the scan
  starts the counter at 1, nothing is removed, the new sheet is given the title
  \<open>Iteration_11\<close>, and the alert is answered as iteration 1 while no sheet
  \<open>Iteration_1\<close> exists.
\<close>

theorem capital_sheet_misfiled:
  "current_iteration (init_handler renamed_book False False (Returns ())) = 1
   \<and> fst (process_chartink_alert drive_down (init_handler renamed_book False False (Returns ()))
            (JObj [(''stocks'', JStr ''TCS'')])) = success_result [''TCS''] 1
   \<and> stored_sheetnames (excel_file
        (snd (process_chartink_alert drive_down (init_handler renamed_book False False (Returns ()))
               (JObj [(''stocks'', JStr ''TCS'')])))) =
      [''Master_List'', ''ITERATION_1'', ''Iteration_11'']"
proof -
  let ?h = "init_handler renamed_book False False (Returns ())"
  have i: "current_iteration ?h = 1" "excel_file ?h = renamed_book"
    by (simp_all add: init_handler_def renamed_book_def get_next_iteration_number_def sheetnames_def)
  have w: "write_succeeds drive_down ?h"
    by (simp add: drive_down_writes renamed_book_def)
  have r: "sheetnames (replace_iteration_sheet ''Iteration_1'' rows
             [(''Master_List'', []), (''ITERATION_1'', [])]) =
           [''Master_List'', ''ITERATION_1'', ''Iteration_11'']" for rows :: "real json list list"
    by (simp add: replace_iteration_sheet_def create_sheet_def sheetnames_def renamed_title)
  have l: "loaded renamed_book = [(''Master_List'', []), (''ITERATION_1'', [])]"
    by (simp add: loaded_def renamed_book_def)
  show ?thesis
    by (simp add: process_success tcs_alert w i l r run_upload_frame sheet_name_1
          stored_sheetnames_def)
qed

end
